theory Spec2Isabelle
  imports Complex_Main "HOL-Library.Multiset"
begin

section \<open>JavaScript values\<close>

text \<open>
  The stat endpoints build plain JavaScript objects and hand them to \<open>res.json\<close>.
  An object is modelled as the list of its own properties in insertion order, so that the
  field names of a record are data a theorem can speak about. Numbers are rationals (every
  finite double is one; the arithmetic the handlers do on them is on integers). The
  string \<open>new Date(t).toISOString()\<close> of the instant \<open>t\<close> (milliseconds since the epoch)
  is kept symbolic as \<open>JIso t\<close>: the ISO string has millisecond precision, hence two
  instants in the valid range of \<open>Date\<close> give the same string exactly when they are equal.
\<close>

datatype jsval =
    JUndefined
  | JNull
  | JBool bool
  | JNum rat
  | JStr string
  | JIso int
  | JArr "jsval list"
  | JObj "(string \<times> jsval) list"

text \<open>Truthiness, as \<open>||\<close> and \<open>?:\<close> test it.\<close>

fun truthy :: "jsval \<Rightarrow> bool" where
  "truthy JUndefined = False"
| "truthy JNull = False"
| "truthy (JBool b) = b"
| "truthy (JNum n) = (n \<noteq> 0)"
| "truthy (JStr s) = (s \<noteq> [])"
| "truthy (JIso t) = True"
| "truthy (JArr xs) = True"
| "truthy (JObj kvs) = True"

text \<open>\<open>a || b\<close>\<close>

definition js_or :: "jsval \<Rightarrow> jsval \<Rightarrow> jsval" where
  "js_or a b = (if truthy a then a else b)"

text \<open>
  \<open>v?.k\<close>: reading the property \<open>k\<close> through optional chaining. \<open>undefined\<close> and
  \<open>null\<close> short-circuit to \<open>undefined\<close>; an object gives the property or \<open>undefined\<close>;
  the other values have none of the properties the handlers read.
\<close>

fun opt_prop :: "jsval \<Rightarrow> string \<Rightarrow> jsval" where
  "opt_prop (JObj kvs) k = (case map_of kvs k of Some v \<Rightarrow> v | None \<Rightarrow> JUndefined)"
| "opt_prop v k = JUndefined"

text \<open>The own property of a record, and the names of its own properties in order.\<close>

fun get_field :: "string \<Rightarrow> jsval \<Rightarrow> jsval option" where
  "get_field k (JObj kvs) = map_of kvs k"
| "get_field k v = None"

fun field_names :: "jsval \<Rightarrow> string list" where
  "field_names (JObj kvs) = map fst kvs"
| "field_names v = []"

section \<open>Strings\<close>

text \<open>
  A string is the list of its code units; \<open>charCodeAt\<close> is \<open>of_char\<close>. The model's
  characters are 8 bits wide, which covers the user names both platforms allow.
\<close>

definition digit_char :: "nat \<Rightarrow> char" where
  "digit_char d = ''0123456789'' ! d"

fun string_of_nat :: "nat \<Rightarrow> string" where
  "string_of_nat n =
     (if n < 10 then [digit_char n] else string_of_nat (n div 10) @ [digit_char (n mod 10)])"

declare string_of_nat.simps [simp del]

text \<open>The template literal \<open>`${n}`\<close> of an integer \<open>n\<close>.\<close>

definition string_of_int :: "int \<Rightarrow> string" where
  "string_of_int i = (if i < 0 then ''-'' @ string_of_nat (nat (- i)) else string_of_nat (nat i))"

text \<open>
  \<open>c.toUpperCase()\<close> of one character: an ASCII lower-case letter becomes its capital,
  and every other ASCII character is kept. (The code units from 128 on are kept as well,
  which leaves out the capitals JavaScript has for some of them.)
\<close>

definition toUpperCase :: "char \<Rightarrow> char" where
  "toUpperCase c =
     (let n = (of_char c :: int) in if 97 \<le> n \<and> n \<le> 122 then char_of (n - 32) else c)"

text \<open>\<open>s.charAt(0).toUpperCase() + s.slice(1)\<close>\<close>

fun capitalize :: "string \<Rightarrow> string" where
  "capitalize [] = []"
| "capitalize (c # cs) = toUpperCase c # cs"

text \<open>
  \<open>s.replace("-", " ")\<close>: a string pattern replaces its first occurrence only.
\<close>

fun replace_first :: "char \<Rightarrow> char \<Rightarrow> string \<Rightarrow> string" where
  "replace_first a b [] = []"
| "replace_first a b (c # cs) = (if c = a then b # cs else c # replace_first a b cs)"

text \<open>
  \<open>split_first sep s\<close> cuts \<open>s\<close> at the first occurrence of \<open>sep\<close> (which is not
  empty); \<open>None\<close> when \<open>sep\<close> does not occur, that is when \<open>s.includes(sep)\<close> is false.
\<close>

fun split_first :: "string \<Rightarrow> string \<Rightarrow> (string \<times> string) option" where
  "split_first sep [] = None"
| "split_first sep (c # cs) =
     (if take (length sep) (c # cs) = sep then Some ([], drop (length sep) (c # cs))
      else (case split_first sep cs of
              None \<Rightarrow> None
            | Some (a, b) \<Rightarrow> Some (c # a, b)))"

definition js_includes :: "string \<Rightarrow> string \<Rightarrow> bool" where
  "js_includes s sep = (split_first sep s \<noteq> None)"

text \<open>
  \<open>s.split(sep)[1]\<close> for an \<open>s\<close> that includes \<open>sep\<close>: what stands between the first
  occurrence of \<open>sep\<close> and the next one (or the end).
\<close>

definition split_second :: "string \<Rightarrow> string \<Rightarrow> string" where
  "split_second s sep =
     (case split_first sep s of
        None \<Rightarrow> []
      | Some (a, b) \<Rightarrow> (case split_first sep b of None \<Rightarrow> b | Some (c, d) \<Rightarrow> c))"

text \<open>\<open>s.replace(/\/$/, "")\<close>: one trailing slash is dropped.\<close>

definition strip_trailing_slash :: "string \<Rightarrow> string" where
  "strip_trailing_slash s = (if s \<noteq> [] \<and> last s = CHR ''/'' then butlast s else s)"

text \<open>
  \<open>xs.slice(0, n)\<close>: the first \<open>n\<close> elements; a negative \<open>n\<close> counts from the end.
\<close>

definition slice0 :: "int \<Rightarrow> 'a list \<Rightarrow> 'a list" where
  "slice0 n xs = (if 0 \<le> n then take (nat n) xs else take (length xs - nat (- n)) xs)"

text \<open>\<open>xs[i]\<close>: \<open>undefined\<close> (here \<open>None\<close>) outside the array.\<close>

definition index :: "'a list \<Rightarrow> int \<Rightarrow> 'a option" where
  "index xs i = (if 0 \<le> i \<and> nat i < length xs then Some (xs ! nat i) else None)"

section \<open>Double arithmetic\<close>

text \<open>
  The selector of the synthesizer divides and multiplies doubles before it takes the
  floor, and the rounding of these two operations is visible: \<open>Math.floor(0.7 * 90)\<close> is
  \<open>62\<close>. A non-negative double is modelled by its mantissa \<open>m\<close> and exponent \<open>e\<close>, the
  value being \<open>m * 2 ^ e\<close>; both operations round to the nearest double of 53 bits, ties
  to even. Overflow and subnormal numbers are out of reach of the values involved.
\<close>

function bitlen :: "int \<Rightarrow> int" where
  "bitlen n = (if n \<le> 0 then 0 else 1 + bitlen (n div 2))"
  by pat_completeness auto
termination
  by (relation "measure nat") auto

declare bitlen.simps [simp del]

text \<open>The integer nearest to \<open>n / d\<close>, ties to even.\<close>

definition round_nearest_even :: "int \<Rightarrow> int \<Rightarrow> int" where
  "round_nearest_even n d =
     (let q = n div d; r = n mod d
      in if d < 2 * r \<or> (2 * r = d \<and> odd q) then q + 1 else q)"

text \<open>The double nearest to \<open>n / d\<close>, for \<open>n \<ge> 0\<close> and \<open>d > 0\<close>.\<close>

definition to_double :: "int \<Rightarrow> int \<Rightarrow> int \<times> int" where
  "to_double n d =
     (let e0 = bitlen n - bitlen d - 53;
          e = (if 2 ^ 53 * d * 2 ^ nat e0 \<le> n * 2 ^ nat (- e0) then e0 + 1 else e0)
      in (round_nearest_even (n * 2 ^ nat (- e)) (d * 2 ^ nat e), e))"

text \<open>The product of a double and a non-negative integer, rounded.\<close>

definition double_times :: "int \<times> int \<Rightarrow> int \<Rightarrow> int \<times> int" where
  "double_times x c = (let p = to_double (fst x * c) 1 in (fst p, snd p + snd x))"

text \<open>\<open>Math.floor\<close>\<close>

definition double_floor :: "int \<times> int \<Rightarrow> int" where
  "double_floor x =
     (if 0 \<le> snd x then fst x * 2 ^ nat (snd x) else fst x div 2 ^ nat (- snd x))"

text \<open>
  The double nearest to an integer, as an integer: up to \<open>2 ^ 53\<close> in absolute value
  every integer is a double, beyond that the nearest one is taken (ties to even).
  Integers beyond the largest double, where JavaScript has \<open>Infinity\<close>, are not
  modelled.
\<close>

definition double_round :: "int \<Rightarrow> int" where
  "double_round s =
     (if 0 \<le> s then double_floor (to_double s 1) else - double_floor (to_double (- s) 1))"

text \<open>\<open>a + b\<close> on two doubles whose values are integers.\<close>

definition double_add :: "int \<Rightarrow> int \<Rightarrow> int" where
  "double_add a b = double_round (a + b)"

section \<open>Sorting\<close>

text \<open>
  \<open>xs.sort((a, b) => key(b) - key(a))\<close>: \<open>Array.prototype.sort\<close> is a stable sort, and
  this comparator orders by \<open>key\<close>, largest first. A stable sort has one result; it is
  computed here by insertion from the right.
\<close>

fun insert_desc :: "('a \<Rightarrow> int) \<Rightarrow> 'a \<Rightarrow> 'a list \<Rightarrow> 'a list" where
  "insert_desc key x [] = [x]"
| "insert_desc key x (y # ys) =
     (if key y \<le> key x then x # y # ys else y # insert_desc key x ys)"

fun sort_desc :: "('a \<Rightarrow> int) \<Rightarrow> 'a list \<Rightarrow> 'a list" where
  "sort_desc key [] = []"
| "sort_desc key (x # xs) = insert_desc key x (sort_desc key xs)"

section \<open>Upstream requests and their outcomes\<close>

text \<open>
  A request as the handler hands it to \<open>axios\<close>: the verb, the URL, the headers and the
  timeout of its configuration object (\<open>None\<close> when the handler gives none, and then
  \<open>axios\<close> waits without bound), and the body of a \<open>POST\<close>.
\<close>

record request =
  verb :: string
  url :: string
  headers :: "(string \<times> string) list"
  timeout :: "nat option"
  payload :: jsval

text \<open>
  An awaited call either yields the response body or throws: on a timeout, on a network
  error, or on an HTTP error status (which carries the body of the error response).
\<close>

datatype failure = Timeout | NetworkError | HttpError nat jsval

text \<open>
  The handlers read typed payloads. \<open>Malformed\<close> stands for a response body of another
  shape, on which the property reads of the handler throw a \<open>TypeError\<close>, inside the
  same \<open>try\<close> block as the call.
\<close>

datatype 'a payload_body = Shaped 'a | Malformed

record response =
  status :: nat
  body :: jsval

text \<open>\<open>res.status(200).json({ success: true, data })\<close>\<close>

definition success_envelope :: "jsval \<Rightarrow> response" where
  "success_envelope d = \<lparr>status = 200, body = JObj [(''success'', JBool True), (''data'', d)]\<rparr>"

text \<open>\<open>res.status(code).json({ success: false, error })\<close>\<close>

definition error_envelope :: "nat \<Rightarrow> jsval \<Rightarrow> response" where
  "error_envelope code e = \<lparr>status = code, body = JObj [(''success'', JBool False), (''error'', e)]\<rparr>"

section \<open>GitHub: the normalized record\<close>

text \<open>
  The fields of the user profile are passed through as they come. Of a repository the
  handler adds up and compares \<open>stargazers_count\<close> (an integer) and tests and counts
  \<open>language\<close> (\<open>null\<close> or a string); the other fields are passed through. The
  property \<open>name\<close> of the two payloads is \<open>user_name\<close> and \<open>repo_name\<close> here, and
  \<open>language\<close> is \<open>repo_language\<close>.
\<close>

record github_user =
  login :: jsval
  user_name :: jsval
  avatar_url :: jsval
  bio :: jsval
  company :: jsval
  blog :: jsval
  location :: jsval
  followers :: jsval
  following :: jsval
  public_repos :: jsval
  public_gists :: jsval

record repo =
  repo_name :: jsval
  description :: jsval
  stargazers_count :: int
  forks_count :: jsval
  html_url :: jsval
  repo_language :: "string option"
  updated_at :: jsval

text \<open>
  \<open>repos.reduce((acc, repo) => acc + repo.stargazers_count, 0)\<close>. The numbers are
  doubles, and each addition rounds.
\<close>

definition totalStars :: "repo list \<Rightarrow> int" where
  "totalStars repos = foldl (\<lambda>acc repo. double_add acc (stargazers_count repo)) 0 repos"

text \<open>
  \<open>languages[l] = (languages[l] || 0) + 1\<close> on an object whose properties keep their
  insertion order. This is the plain object for language names that are neither array
  indices (which \<open>Object.entries\<close> lists first) nor names of properties the object
  inherits, such as \<open>constructor\<close> (whose first read is not \<open>undefined\<close>).
\<close>

fun bump :: "string \<Rightarrow> (string \<times> int) list \<Rightarrow> (string \<times> int) list" where
  "bump l [] = [(l, 0 + 1)]"
| "bump l ((k, c) # kvs) =
     (if k = l then (k, (if c \<noteq> 0 then c else 0) + 1) # kvs else (k, c) # bump l kvs)"

definition count_languages :: "repo list \<Rightarrow> (string \<times> int) list" where
  "count_languages repos =
     foldl (\<lambda>languages repo.
              case repo_language repo of
                None \<Rightarrow> languages
              | Some l \<Rightarrow> if l \<noteq> [] then bump l languages else languages)
       [] repos"

definition language_entry :: "string \<times> int \<Rightarrow> jsval" where
  "language_entry p = (case p of (n, c) \<Rightarrow> JObj [(''name'', JStr n), (''count'', JNum (of_int c))])"

definition languageStats :: "repo list \<Rightarrow> jsval list" where
  "languageStats repos = map language_entry (slice0 5 (sort_desc snd (count_languages repos)))"

definition language_value :: "string option \<Rightarrow> jsval" where
  "language_value l = (case l of None \<Rightarrow> JNull | Some s \<Rightarrow> JStr s)"

definition repo_entry :: "repo \<Rightarrow> jsval" where
  "repo_entry r = JObj
     [(''name'', repo_name r),
      (''description'', description r),
      (''stars'', JNum (of_int (stargazers_count r))),
      (''forks'', forks_count r),
      (''url'', html_url r),
      (''language'', language_value (repo_language r)),
      (''updatedAt'', updated_at r)]"

text \<open>
  The record of the branch that has both responses. \<open>clock\<close> gives the successive
  readings of the system clock within the branch; \<open>new Date()\<close> takes the first one.
\<close>

definition github_real_stats :: "(nat \<Rightarrow> int) \<Rightarrow> github_user \<Rightarrow> repo list \<Rightarrow> jsval" where
  "github_real_stats clock userData repos = JObj
     [(''username'', login userData),
      (''name'', user_name userData),
      (''avatarUrl'', avatar_url userData),
      (''bio'', bio userData),
      (''company'', company userData),
      (''blog'', blog userData),
      (''location'', location userData),
      (''followers'', followers userData),
      (''following'', following userData),
      (''publicRepos'', public_repos userData),
      (''publicGists'', public_gists userData),
      (''totalStars'', JNum (of_int (totalStars repos))),
      (''languages'', JArr (languageStats repos)),
      (''topRepos'', JArr (map repo_entry (slice0 5 (sort_desc stargazers_count repos)))),
      (''dataSource'', JStr ''GitHub API''),
      (''lastUpdated'', JIso (clock 0))]"

section \<open>GitHub: the synthesized record\<close>

text \<open>
  \<open>username.split("").reduce((acc, char) => acc + char.charCodeAt(0), 0)\<close>
\<close>

definition seed :: "string \<Rightarrow> int" where
  "seed username = foldl (\<lambda>acc char. acc + of_char char) 0 username"

text \<open>
  \<open>(min, max) => Math.floor(((seed % 1000) / 1000) * (max - min + 1)) + min\<close>,
  for \<open>min \<le> max + 1\<close>. The selector reads the seed and nothing else.
\<close>

definition random_sel :: "int \<Rightarrow> int \<Rightarrow> int \<Rightarrow> int" where
  "random_sel sd mn mx =
     double_floor (double_times (to_double (sd mod 1000) 1000) (mx - mn + 1)) + mn"

definition mock_languages :: "string list" where
  "mock_languages =
     [''JavaScript'', ''Python'', ''Java'', ''TypeScript'', ''C++'', ''Go'', ''Rust'', ''PHP'']"

definition selectedLanguages :: "int \<Rightarrow> (string \<times> int) list" where
  "selectedLanguages sd =
     map (\<lambda>lang. (lang, random_sel sd 1 15)) (slice0 (random_sel sd 3 6) mock_languages)"

definition mock_language_entry :: "string \<times> int \<Rightarrow> jsval" where
  "mock_language_entry p =
     (case p of (lang, c) \<Rightarrow> JObj [(''name'', JStr lang), (''count'', JNum (of_int c))])"

definition repoNames :: "string list" where
  "repoNames =
     [''awesome-project'', ''web-app'', ''api-server'', ''mobile-app'', ''data-analysis'',
      ''machine-learning'', ''portfolio-website'', ''chat-application'', ''e-commerce'',
      ''blog-platform'', ''task-manager'', ''weather-app'', ''social-media'', ''game-engine'']"

text \<open>One entry of the synthesized \<open>topRepos\<close>, before it is serialized.\<close>

record mock_repo =
  mock_name :: string
  mock_description :: string
  mock_stars :: int
  mock_forks :: int
  mock_url :: string
  mock_language :: string
  mock_updatedAt :: int

text \<open>
  The callback of \<open>repoNames.slice(0, random(3, 8)).map\<close>, for the element \<open>name\<close> at
  position \<open>i\<close>. Each call reads the clock once (\<open>Date.now()\<close>), so the entry at
  position \<open>i\<close> gets the reading \<open>clock i\<close>.
\<close>

definition mock_repo_of :: "(nat \<Rightarrow> int) \<Rightarrow> string \<Rightarrow> nat \<times> string \<Rightarrow> mock_repo" where
  "mock_repo_of clock username p =
     (case p of (i, name) \<Rightarrow>
        let sd = seed username; sel = selectedLanguages sd in
        \<lparr>mock_name = name @ ''-'' @ string_of_int (random_sel sd 1 99),
         mock_description =
           ''A '' @ replace_first (CHR ''-'') (CHR '' '') name @ '' built with modern technologies'',
         mock_stars = random_sel sd 0 150,
         mock_forks = random_sel sd 0 50,
         mock_url = ''https://github.com/'' @ username @ ''/'' @ name,
         mock_language =
           (case index sel (random_sel sd 0 (int (length sel) - 1)) of
              None \<Rightarrow> ''JavaScript''
            | Some (l, c) \<Rightarrow> if l \<noteq> [] then l else ''JavaScript''),
         mock_updatedAt = clock i - random_sel sd 1 90 * 24 * 60 * 60 * 1000\<rparr>)"

definition mock_topRepos :: "(nat \<Rightarrow> int) \<Rightarrow> string \<Rightarrow> mock_repo list" where
  "mock_topRepos clock username =
     map (mock_repo_of clock username)
       (enumerate 0 (slice0 (random_sel (seed username) 3 8) repoNames))"

definition mock_repo_entry :: "mock_repo \<Rightarrow> jsval" where
  "mock_repo_entry r = JObj
     [(''name'', JStr (mock_name r)),
      (''description'', JStr (mock_description r)),
      (''stars'', JNum (of_int (mock_stars r))),
      (''forks'', JNum (of_int (mock_forks r))),
      (''url'', JStr (mock_url r)),
      (''language'', JStr (mock_language r)),
      (''updatedAt'', JIso (mock_updatedAt r))]"

definition mock_locations :: "string list" where
  "mock_locations = [''San Francisco'', ''New York'', ''London'', ''Berlin'', ''Tokyo'']"

text \<open>
  The record of the \<open>catch\<close> branch. \<open>new Date()\<close> for \<open>lastUpdated\<close> reads the clock
  after the entries of \<open>topRepos\<close> have read it.
\<close>

definition github_mock_stats :: "(nat \<Rightarrow> int) \<Rightarrow> string \<Rightarrow> jsval" where
  "github_mock_stats clock username =
     (let sd = seed username; topRepos = mock_topRepos clock username in
      JObj
       [(''username'', JStr username),
        (''name'', JStr (capitalize username)),
        (''avatarUrl'', JStr (''https://github.com/'' @ username @ ''.png'')),
        (''bio'', JStr ''Software developer passionate about coding and open source''),
        (''company'', if random_sel sd 0 1 \<noteq> 0 then JStr ''Tech Company'' else JNull),
        (''blog'',
           if random_sel sd 0 1 \<noteq> 0 then JStr (''https://'' @ username @ ''.dev'') else JNull),
        (''location'',
           case index mock_locations (random_sel sd 0 4) of
             None \<Rightarrow> JUndefined
           | Some l \<Rightarrow> JStr l),
        (''followers'', JNum (of_int (random_sel sd 10 500))),
        (''following'', JNum (of_int (random_sel sd 20 200))),
        (''publicRepos'', JNum (of_int (random_sel sd 5 50))),
        (''publicGists'', JNum (of_int (random_sel sd 0 20))),
        (''totalStars'',
           JNum (of_int (foldl (\<lambda>acc repo. double_add acc (mock_stars repo)) 0 topRepos))),
        (''languages'', JArr (map mock_language_entry (selectedLanguages sd))),
        (''topRepos'', JArr (map mock_repo_entry topRepos)),
        (''dataSource'', JStr ''Mock Data (GitHub API unavailable)''),
        (''lastUpdated'', JIso (clock (length topRepos)))])"

section \<open>GitHub: the endpoints\<close>

text \<open>The headers; the token of the environment is added when it is set and not empty.\<close>

definition github_headers :: "string option \<Rightarrow> (string \<times> string) list" where
  "github_headers token =
     [(''Accept'', ''application/vnd.github.v3+json''), (''User-Agent'', ''DevLink-App'')] @
     (case token of
        None \<Rightarrow> []
      | Some t \<Rightarrow> if t \<noteq> [] then [(''Authorization'', ''token '' @ t)] else [])"

definition github_user_request :: "string option \<Rightarrow> string \<Rightarrow> request" where
  "github_user_request token username =
     \<lparr>verb = ''GET'', url = ''https://api.github.com/users/'' @ username,
      headers = github_headers token, timeout = Some 5000, payload = JUndefined\<rparr>"

definition github_repos_request :: "string option \<Rightarrow> string \<Rightarrow> request" where
  "github_repos_request token username =
     \<lparr>verb = ''GET'',
      url = ''https://api.github.com/users/'' @ username @ ''/repos?per_page=100&sort=updated'',
      headers = github_headers token, timeout = Some 5000, payload = JUndefined\<rparr>"

text \<open>
  \<open>router.get("/stats/:username")\<close> of the GitHub router. \<open>get_user\<close> and \<open>get_repos\<close>
  are the network: what the awaited call of a request comes to. The result is the list
  of the requests issued, in order, and the response sent. The second request is issued
  only when the first has returned. Whatever throws in the inner \<open>try\<close> (a call, or a
  read of a malformed body once both calls have returned), its \<open>catch\<close> builds the
  synthesized record, and the handler answers \<open>200\<close>. Nothing throws outside the inner
  \<open>try\<close>, so the outer \<open>catch\<close> (status \<open>500\<close>) is not reached.
\<close>

definition github_stats_by_username ::
  "string option \<Rightarrow> (nat \<Rightarrow> int) \<Rightarrow> (request \<Rightarrow> failure + github_user payload_body) \<Rightarrow>
   (request \<Rightarrow> failure + repo list payload_body) \<Rightarrow> string \<Rightarrow> request list \<times> response" where
  "github_stats_by_username token clock get_user get_repos username =
     (let q1 = github_user_request token username; q2 = github_repos_request token username in
      case get_user q1 of
        Inl apiError \<Rightarrow> ([q1], success_envelope (github_mock_stats clock username))
      | Inr userResponse \<Rightarrow>
          (case get_repos q2 of
             Inl apiError \<Rightarrow> ([q1, q2], success_envelope (github_mock_stats clock username))
           | Inr reposResponse \<Rightarrow>
               ([q1, q2],
                success_envelope
                  (case userResponse of
                     Malformed \<Rightarrow> github_mock_stats clock username
                   | Shaped userData \<Rightarrow>
                       (case reposResponse of
                          Malformed \<Rightarrow> github_mock_stats clock username
                        | Shaped repos \<Rightarrow> github_real_stats clock userData repos)))))"

section \<open>LeetCode: the normalized record\<close>

text \<open>
  The GraphQL query of both LeetCode endpoints (its line breaks and indentation written
  as single spaces), and the request that posts it. The call is
  \<open>axios.post(url, { query, variables: { username } })\<close>: there is no configuration
  object, hence no headers of the handler's and no timeout.
\<close>

definition leetcode_query :: string where
  "leetcode_query =
      ''query userProfile($username: String!) { matchedUser(username:'' @
      '' $username) { username submitStats: submitStatsGlobal { acSubmissionNum'' @
      '' { difficulty count submissions } } profile { ranking reputation'' @
      '' starRating realName } badges { id displayName icon } tagProblemCounts'' @
      '' { advanced { tagName problemsSolved } intermediate { tagName'' @
      '' problemsSolved } fundamental { tagName problemsSolved } }'' @
      '' problemsSolvedBeatsStats { difficulty percentage } }'' @
      '' userContestRanking(username: $username) { attendedContestsCount rating'' @
      '' globalRanking totalParticipants topPercentage badge { name } }'' @
      '' recentSubmissionList(username: $username, limit: 15) { id title'' @
      '' titleSlug timestamp statusDisplay lang } }''"

definition leetcode_request :: "string \<Rightarrow> request" where
  "leetcode_request username =
     \<lparr>verb = ''POST'', url = ''https://leetcode.com/graphql'', headers = [], timeout = None,
      payload = JObj [(''query'', JStr leetcode_query),
                      (''variables'', JObj [(''username'', JStr username)])]\<rparr>"

text \<open>
  \<open>response.data.data\<close>, typed. What the handler reads through \<open>?.\<close> may be missing
  (\<open>None\<close>: \<open>null\<close> or \<open>undefined\<close>). The counts the handler looks up and the
  \<open>problemsSolved\<close> it sorts by are integers, the difficulty labels strings; everything
  else is passed through or tested for truthiness only. The property \<open>count\<close> of a
  breakdown entry is \<open>ac_count\<close> here, and \<open>username\<close> of the matched user is
  \<open>lc_username\<close>.
\<close>

record ac_entry =
  difficulty :: string
  ac_count :: int

record submit_stats =
  acSubmissionNum :: "ac_entry list option"

record lc_profile =
  ranking :: jsval
  reputation :: jsval
  realName :: jsval

record tag_count =
  tagName :: jsval
  problemsSolved :: int

record tag_problem_counts =
  advanced :: "tag_count list option"
  intermediate :: "tag_count list option"
  fundamental :: "tag_count list option"

record matched_user =
  lc_username :: jsval
  submitStats :: "submit_stats option"
  profile :: "lc_profile option"
  badges :: "jsval list option"
  tagProblemCounts :: "tag_problem_counts option"
  problemsSolvedBeatsStats :: "jsval list option"

record contest_ranking =
  attendedContestsCount :: jsval
  rating :: jsval
  globalRanking :: jsval
  badge :: jsval

record leetcode_data =
  matchedUser :: "matched_user option"
  userContestRanking :: "contest_ranking option"
  recentSubmissionList :: "jsval list option"

text \<open>
  \<open>userData.matchedUser?.submitStats?.acSubmissionNum?.find((item) =>
  item.difficulty === label)?.count\<close>: \<open>None\<close> is \<open>undefined\<close>.
\<close>

definition find_count :: "leetcode_data \<Rightarrow> string \<Rightarrow> int option" where
  "find_count userData label =
     (case matchedUser userData of
        None \<Rightarrow> None
      | Some m \<Rightarrow>
          (case submitStats m of
             None \<Rightarrow> None
           | Some st \<Rightarrow>
               (case acSubmissionNum st of
                  None \<Rightarrow> None
                | Some items \<Rightarrow>
                    (case find (\<lambda>item. difficulty item = label) items of
                       None \<Rightarrow> None
                     | Some item \<Rightarrow> Some (ac_count item)))))"

text \<open>\<open>x || 0\<close> for a count \<open>x\<close> that may be \<open>undefined\<close>.\<close>

definition or_zero :: "int option \<Rightarrow> int" where
  "or_zero x = (case x of None \<Rightarrow> 0 | Some c \<Rightarrow> if c \<noteq> 0 then c else 0)"

definition solved :: "leetcode_data \<Rightarrow> string \<Rightarrow> int" where
  "solved userData label = or_zero (find_count userData label)"

text \<open>\<open>userData.matchedUser?.tagProblemCounts?.tier || []\<close>\<close>

definition tag_tier ::
  "(tag_problem_counts \<Rightarrow> tag_count list option) \<Rightarrow> leetcode_data \<Rightarrow> tag_count list" where
  "tag_tier tier userData =
     (case matchedUser userData of
        None \<Rightarrow> []
      | Some m \<Rightarrow>
          (case tagProblemCounts m of
             None \<Rightarrow> []
           | Some t \<Rightarrow> (case tier t of None \<Rightarrow> [] | Some tags \<Rightarrow> tags)))"

text \<open>
  \<open>[...advanced, ...intermediate, ...fundamental].sort((a, b) => b.problemsSolved -
  a.problemsSolved).slice(0, 5)\<close>
\<close>

definition topTags :: "leetcode_data \<Rightarrow> tag_count list" where
  "topTags userData =
     slice0 5 (sort_desc problemsSolved
       (tag_tier advanced userData @ tag_tier intermediate userData @
        tag_tier fundamental userData))"

definition tag_entry :: "tag_count \<Rightarrow> jsval" where
  "tag_entry t =
     JObj [(''tagName'', tagName t), (''problemsSolved'', JNum (of_int (problemsSolved t)))]"

definition or_empty :: "jsval list option \<Rightarrow> jsval" where
  "or_empty xs = (case xs of None \<Rightarrow> JArr [] | Some ys \<Rightarrow> JArr ys)"

definition profile_field :: "(lc_profile \<Rightarrow> jsval) \<Rightarrow> leetcode_data \<Rightarrow> jsval" where
  "profile_field f userData =
     (case matchedUser userData of
        None \<Rightarrow> JUndefined
      | Some m \<Rightarrow> (case profile m of None \<Rightarrow> JUndefined | Some p \<Rightarrow> f p))"

definition contest_field :: "(contest_ranking \<Rightarrow> jsval) \<Rightarrow> leetcode_data \<Rightarrow> jsval" where
  "contest_field f userData =
     (case userContestRanking userData of None \<Rightarrow> JUndefined | Some c \<Rightarrow> f c)"

definition leetcodeStats :: "leetcode_data \<Rightarrow> jsval" where
  "leetcodeStats userData = JObj
     [(''username'',
         case matchedUser userData of None \<Rightarrow> JUndefined | Some m \<Rightarrow> lc_username m),
      (''ranking'', profile_field ranking userData),
      (''reputation'', profile_field reputation userData),
      (''realName'', profile_field realName userData),
      (''totalSolved'', JNum (of_int (solved userData ''All''))),
      (''easySolved'', JNum (of_int (solved userData ''Easy''))),
      (''mediumSolved'', JNum (of_int (solved userData ''Medium''))),
      (''hardSolved'', JNum (of_int (solved userData ''Hard''))),
      (''contestAttended'', js_or (contest_field attendedContestsCount userData) (JNum 0)),
      (''contestRating'', js_or (contest_field rating userData) (JNum 0)),
      (''contestGlobalRanking'', js_or (contest_field globalRanking userData) (JNum 0)),
      (''contestBadge'',
         js_or (opt_prop (contest_field badge userData) ''name'') JNull),
      (''badges'',
         or_empty (case matchedUser userData of None \<Rightarrow> None | Some m \<Rightarrow> badges m)),
      (''beatsPercentage'',
         or_empty (case matchedUser userData of
                     None \<Rightarrow> None
                   | Some m \<Rightarrow> problemsSolvedBeatsStats m)),
      (''recentSubmissions'', or_empty (recentSubmissionList userData)),
      (''topTags'', JArr (map tag_entry (topTags userData)))]"

section \<open>LeetCode: the endpoints\<close>

text \<open>
  What both LeetCode handlers do once they have the user name: one request, and on its
  response the normalized record with status \<open>200\<close>. There is one \<open>try\<close> block and
  its \<open>catch\<close> answers \<open>500\<close> with \<open>success: false\<close>: a failed call is reported, no
  record is synthesized.
\<close>

definition leetcode_fetch ::
  "(request \<Rightarrow> failure + leetcode_data payload_body) \<Rightarrow> string \<Rightarrow>
   request list \<times> response" where
  "leetcode_fetch post username =
     (let q = leetcode_request username in
      case post q of
        Inl err \<Rightarrow> ([q], error_envelope 500 (JStr ''Error fetching LeetCode stats''))
      | Inr Malformed \<Rightarrow> ([q], error_envelope 500 (JStr ''Error fetching LeetCode stats''))
      | Inr (Shaped userData) \<Rightarrow> ([q], success_envelope (leetcodeStats userData)))"

text \<open>\<open>router.get("/stats/:username")\<close> of the LeetCode router.\<close>

definition leetcode_stats_by_username ::
  "(request \<Rightarrow> failure + leetcode_data payload_body) \<Rightarrow> string \<Rightarrow>
   request list \<times> response" where
  "leetcode_stats_by_username post username = leetcode_fetch post username"

section \<open>The profile-bound endpoints\<close>

text \<open>
  The stored profile, as far as the handlers read it: the platform bindings. The model
  \<open>Profile\<close> is not part of the handlers; \<open>Profile.findOne({ user: id })\<close> is taken as
  a function of the user id that yields the profile, \<open>null\<close> (\<open>None\<close>), or throws with
  a message (\<open>Inl\<close>).
\<close>

record platform_binding =
  platform_name :: string
  platform_username :: string

record user_profile =
  platforms :: "platform_binding list"

type_synonym profile_store = "string \<Rightarrow> string + user_profile option"

text \<open>
  \<open>router.get("/stats", protect)\<close> of the LeetCode router. The two early returns
  answer \<open>404\<close> before any request is issued.
\<close>

definition leetcode_stats_by_profile ::
  "profile_store \<Rightarrow> (request \<Rightarrow> failure + leetcode_data payload_body) \<Rightarrow> string \<Rightarrow>
   request list \<times> response" where
  "leetcode_stats_by_profile findOne post user_id =
     (case findOne user_id of
        Inl err \<Rightarrow> ([], error_envelope 500 (JStr ''Error fetching LeetCode stats''))
      | Inr None \<Rightarrow> ([], error_envelope 404 (JStr ''Profile not found''))
      | Inr (Some prof) \<Rightarrow>
          (case find (\<lambda>platform. platform_name platform = ''LeetCode'') (platforms prof) of
             None \<Rightarrow> ([], error_envelope 404 (JStr ''LeetCode profile not found''))
           | Some leetcodePlatform \<Rightarrow> leetcode_fetch post (platform_username leetcodePlatform)))"

text \<open>
  \<open>err.response?.data?.message\<close>: only an HTTP error has a response, and its body may
  carry a message.
\<close>

fun failure_message :: "failure \<Rightarrow> jsval" where
  "failure_message (HttpError code b) = opt_prop b ''message''"
| "failure_message e = JUndefined"

text \<open>
  The user name of a GitHub binding: what follows \<open>github.com/\<close> when the binding holds
  a URL, without one trailing slash.
\<close>

definition github_binding_username :: "string \<Rightarrow> string" where
  "github_binding_username username =
     (if js_includes username ''github.com/''
      then strip_trailing_slash (split_second username ''github.com/'')
      else username)"

definition github_forward_request :: "string \<Rightarrow> string \<Rightarrow> string \<Rightarrow> request" where
  "github_forward_request protocol host username =
     \<lparr>verb = ''GET'', url = protocol @ ''://'' @ host @ ''/api/github/stats/'' @ username,
      headers = [], timeout = None, payload = JUndefined\<rparr>"

text \<open>
  \<open>router.get("/stats", protect)\<close> of the GitHub router. With a binding it forwards to
  the username endpoint of its own host (\<open>forward\<close> is this loop-back call) and relays
  the body it gets; the two early returns answer \<open>404\<close> before that.
\<close>

definition github_stats_by_profile ::
  "profile_store \<Rightarrow> (request \<Rightarrow> failure + jsval) \<Rightarrow> string \<Rightarrow> string \<Rightarrow> string \<Rightarrow>
   request list \<times> response" where
  "github_stats_by_profile findOne forward protocol host user_id =
     (case findOne user_id of
        Inl err \<Rightarrow> ([], error_envelope 500 (JStr ''Error fetching GitHub stats''))
      | Inr None \<Rightarrow> ([], error_envelope 404 (JStr ''Profile not found''))
      | Inr (Some prof) \<Rightarrow>
          (case find (\<lambda>platform. platform_name platform = ''GitHub'') (platforms prof) of
             None \<Rightarrow> ([], error_envelope 404 (JStr ''GitHub profile not found''))
           | Some githubPlatform \<Rightarrow>
               (let q = github_forward_request protocol host
                          (github_binding_username (platform_username githubPlatform)) in
                case forward q of
                  Inl err \<Rightarrow>
                    ([q], error_envelope 500
                            (js_or (failure_message err) (JStr ''Error fetching GitHub stats'')))
                | Inr data \<Rightarrow> ([q], \<lparr>status = 200, body = data\<rparr>))))"

section \<open>What the specification says, in its own words\<close>

text \<open>
  The submission-count breakdown of a payload (empty when any link to it is missing), and
  the count the specification gives a difficulty label: the count of the entry that
  carries the label, and \<open>0\<close> when there is none.
\<close>

definition breakdown :: "leetcode_data \<Rightarrow> ac_entry list" where
  "breakdown userData =
     (case matchedUser userData of
        None \<Rightarrow> []
      | Some m \<Rightarrow>
          (case submitStats m of
             None \<Rightarrow> []
           | Some st \<Rightarrow> (case acSubmissionNum st of None \<Rightarrow> [] | Some items \<Rightarrow> items)))"

definition spec_solved :: "ac_entry list \<Rightarrow> string \<Rightarrow> int" where
  "spec_solved entries label =
     (case find (\<lambda>e. difficulty e = label) entries of None \<Rightarrow> 0 | Some e \<Rightarrow> ac_count e)"

text \<open>The three tag-count tiers of a payload, concatenated.\<close>

definition merged_tiers :: "leetcode_data \<Rightarrow> tag_count list" where
  "merged_tiers userData =
     tag_tier advanced userData @ tag_tier intermediate userData @ tag_tier fundamental userData"

text \<open>
  An upstream call fails: it throws (timeout, network or HTTP error), or its payload is
  malformed.
\<close>

definition upstream_failed :: "failure + 'a payload_body \<Rightarrow> bool" where
  "upstream_failed r =
     (case r of Inl e \<Rightarrow> True | Inr Malformed \<Rightarrow> True | Inr (Shaped x) \<Rightarrow> False)"

text \<open>
  The store has no binding of the platform \<open>pname\<close> for a user: no profile exists, or
  the profile has no binding of that name.
\<close>

definition binding_missing :: "profile_store \<Rightarrow> string \<Rightarrow> string \<Rightarrow> bool" where
  "binding_missing findOne user_id pname =
     (case findOne user_id of
        Inl err \<Rightarrow> False
      | Inr None \<Rightarrow> True
      | Inr (Some prof) \<Rightarrow> \<not> list_ex (\<lambda>b. platform_name b = pname) (platforms prof))"

section \<open>Example inputs\<close>

definition example_repo :: "string \<Rightarrow> int \<Rightarrow> repo" where
  "example_repo n stars =
     \<lparr>repo_name = JStr n, description = JNull, stargazers_count = stars,
      forks_count = JNum 0, html_url = JStr (''https://github.com/octocat/'' @ n),
      repo_language = None, updated_at = JStr ''2024-01-01T00:00:00Z''\<rparr>"

definition example_user :: github_user where
  "example_user =
     \<lparr>login = JStr ''octocat'', user_name = JStr ''The Octocat'',
      avatar_url = JStr ''https://avatars.githubusercontent.com/u/583231'', bio = JNull,
      company = JStr ''@github'', blog = JStr ''https://github.blog'',
      location = JStr ''San Francisco'', followers = JNum 100, following = JNum 9,
      public_repos = JNum 8, public_gists = JNum 8\<rparr>"

definition example_tag :: "string \<Rightarrow> int \<Rightarrow> tag_count" where
  "example_tag n k = \<lparr>tagName = JStr n, problemsSolved = k\<rparr>"

text \<open>
  A LeetCode payload whose breakdown has an entry for \<open>Easy\<close> and one for \<open>Hard\<close> and
  none for \<open>All\<close>, and whose tag tiers have ties.
\<close>

definition example_leetcode :: leetcode_data where
  "example_leetcode =
     \<lparr>matchedUser = Some
        \<lparr>lc_username = JStr ''octocat'',
         submitStats = Some
           \<lparr>acSubmissionNum = Some
              [\<lparr>difficulty = ''Easy'', ac_count = 3\<rparr>, \<lparr>difficulty = ''Hard'', ac_count = 1\<rparr>]\<rparr>,
         profile = None,
         badges = None,
         tagProblemCounts = Some
           \<lparr>advanced = Some [example_tag ''A'' 3, example_tag ''B'' 5],
            intermediate = Some [example_tag ''C'' 5, example_tag ''D'' 1, example_tag ''E'' 3],
            fundamental = Some [example_tag ''F'' 5, example_tag ''G'' 2]\<rparr>,
         problemsSolvedBeatsStats = None\<rparr>,
      userContestRanking = None,
      recentSubmissionList = None\<rparr>"

text \<open>A payload with nothing in it.\<close>

definition empty_leetcode :: leetcode_data where
  "empty_leetcode = \<lparr>matchedUser = None, userContestRanking = None, recentSubmissionList = None\<rparr>"

text \<open>
  A profile store: \<open>alice\<close> has a profile that binds LeetCode only, \<open>bob\<close> one that binds
  GitHub only, \<open>carol\<close> has none, and every other lookup fails.
\<close>

definition example_store :: profile_store where
  "example_store user_id =
     (if user_id = ''alice''
      then Inr (Some \<lparr>platforms = [\<lparr>platform_name = ''LeetCode'', platform_username = ''alice_lc''\<rparr>]\<rparr>)
      else if user_id = ''bob''
      then Inr (Some \<lparr>platforms =
             [\<lparr>platform_name = ''GitHub'', platform_username = ''https://github.com/bob/''\<rparr>]\<rparr>)
      else if user_id = ''carol'' then Inr None
      else Inl ''connection lost'')"

section \<open>Lemmas: folds and the stable sort\<close>

lemma slice0_5: "slice0 5 xs = take 5 xs"
  by (simp add: slice0_def)

lemma mset_insert_desc: "mset (insert_desc key x xs) = add_mset x (mset xs)"
  by (induction xs) simp_all

lemma mset_sort_desc: "mset (sort_desc key xs) = mset xs"
  by (induction xs) (simp_all add: mset_insert_desc)

lemma set_insert_desc: "set (insert_desc key x xs) = insert x (set xs)"
  by (induction xs) auto

lemma sorted_insert_desc:
  "sorted_wrt (\<lambda>a b. key b \<le> key a) xs \<Longrightarrow>
   sorted_wrt (\<lambda>a b. key b \<le> key a) (insert_desc key x xs)"
  by (induction xs) (auto simp: set_insert_desc)

lemma sorted_sort_desc: "sorted_wrt (\<lambda>a b. key b \<le> key a) (sort_desc key xs)"
  by (induction xs) (simp_all add: sorted_insert_desc)

text \<open>
  Stability: among the elements of one key the sort keeps the order of the input. An
  element inserted into a sorted list lands in front of the elements of its own key.
\<close>

lemma filter_insert_desc_other:
  "key x \<noteq> v \<Longrightarrow>
   filter (\<lambda>y. key y = v) (insert_desc key x xs) = filter (\<lambda>y. key y = v) xs"
  by (induction xs) simp_all

lemma filter_insert_desc_same:
  "sorted_wrt (\<lambda>a b. key b \<le> key a) xs \<Longrightarrow>
   filter (\<lambda>y. key y = key x) (insert_desc key x xs) = x # filter (\<lambda>y. key y = key x) xs"
proof (induction xs)
  case Nil
  show ?case by simp
next
  case (Cons y ys)
  show ?case
  proof (cases "key y \<le> key x")
    case True
    then show ?thesis by simp
  next
    case False
    with Cons show ?thesis by simp
  qed
qed

lemma filter_sort_desc:
  "filter (\<lambda>y. key y = v) (sort_desc key xs) = filter (\<lambda>y. key y = v) xs"
proof (induction xs)
  case Nil
  show ?case by simp
next
  case (Cons x xs)
  show ?case
  proof (cases "key x = v")
    case True
    then show ?thesis
      using filter_insert_desc_same [of key "sort_desc key xs" x] Cons
      by (simp add: sorted_sort_desc)
  next
    case False
    then show ?thesis
      using Cons by (simp add: filter_insert_desc_other)
  qed
qed

section \<open>Lemmas: doubles that are integers\<close>

text \<open>
  The bit length of a positive integer brackets it between two powers of two. From this,
  rounding to the nearest double keeps every integer from \<open>0\<close> to \<open>2 ^ 53\<close>, and a
  chain of additions is exact as long as the sum stays in that range.
\<close>

lemma bitlen_bounds:
  "0 < n \<Longrightarrow> 0 < bitlen n \<and> 2 ^ nat (bitlen n - 1) \<le> n \<and> n < 2 ^ nat (bitlen n)"
proof (induction n rule: bitlen.induct)
  case (1 n)
  show ?case
  proof (cases "n div 2 = 0")
    case True
    with 1 have "n = 1" by presburger
    then show ?thesis
      by (simp add: bitlen.simps)
  next
    case False
    with 1 have p: "0 < n div 2" by presburger
    with 1 have ih: "0 < bitlen (n div 2)" "2 ^ nat (bitlen (n div 2) - 1) \<le> n div 2"
      "n div 2 < 2 ^ nat (bitlen (n div 2))"
      by simp_all
    from "1.prems" have b: "bitlen n = 1 + bitlen (n div 2)"
      by (simp add: bitlen.simps [of n])
    from ih(1) obtain j where j: "nat (bitlen (n div 2)) = Suc j"
      by (cases "nat (bitlen (n div 2))") simp_all
    from ih(1) j have j1: "nat (bitlen (n div 2) - 1) = j"
      by linarith
    from ih(1) j have j2: "nat (1 + bitlen (n div 2)) = Suc (Suc j)"
      by linarith
    from ih(1) j have j3: "nat (1 + bitlen (n div 2) - 1) = Suc j"
      by linarith
    from ih(2) j1 have l: "(2::int) ^ j \<le> n div 2" by simp
    from ih(3) j have u: "n div 2 < (2::int) ^ Suc j" by simp
    from l have "2 * (2::int) ^ j \<le> n" by linarith
    moreover from u have "n < 2 * (2::int) ^ Suc j" by linarith
    ultimately show ?thesis
      using ih(1) by (simp add: b j2 j3 j)
  qed
qed


lemma bitlen_one: "bitlen 1 = 1"
  by (simp add: bitlen.simps)

lemma double_round_exact:
  assumes "0 \<le> n" and "n \<le> 2 ^ 53"
  shows "double_round n = n"
proof -
  consider "n = 0" | "n = 2 ^ 53" | "0 < n" "n < 2 ^ 53"
    using assms by linarith
  then show ?thesis
  proof cases
    case 1
    then show ?thesis
      by (simp add: double_round_def double_floor_def to_double_def round_nearest_even_def
          Let_def bitlen.simps)
  next
    case 2
    then show ?thesis
      by (simp add: double_round_def double_floor_def to_double_def round_nearest_even_def
          Let_def bitlen.simps)
  next
    case 3
    from 3(1) bitlen_bounds [of n] have bp: "0 < bitlen n"
      and lo: "2 ^ nat (bitlen n - 1) \<le> n" and hi: "n < 2 ^ nat (bitlen n)"
      by simp_all
    define k where "k = nat (bitlen n - 1)"
    from bp have bk: "bitlen n = int (Suc k)"
      by (simp add: k_def)
    then have k: "nat (bitlen n) = Suc k"
      by simp
    from bk have k1: "nat (bitlen n - 1) = k"
      by simp
    from lo k1 have lo': "(2::int) ^ k \<le> n" by simp
    with 3(2) have kl: "(2::int) ^ k < 2 ^ 53" by linarith
    have "(1::int) < 2" by simp
    from power_less_imp_less_exp [OF this kl] have "k < 53" .
    then obtain j where j: "53 = Suc (k + j)"
      by (metis add_Suc_right less_iff_Suc_add)
    have e0: "bitlen n - bitlen 1 - 53 = - int (Suc j)"
      using bk j by (simp add: bitlen_one)
    have "(2::int) ^ (k + Suc j) = 2 ^ k * 2 ^ Suc j"
      by (rule power_add)
    moreover have "k + Suc j = 53"
      using j by simp
    ultimately have pw: "(2::int) ^ 53 = 2 ^ k * 2 ^ Suc j"
      by metis
    have c: "(2::int) ^ 53 \<le> n * 2 ^ Suc j"
    proof -
      have "(2::int) ^ k * 2 ^ Suc j \<le> n * 2 ^ Suc j"
        using lo' by (simp add: mult_right_mono)
      then show ?thesis
        by (simp only: pw)
    qed
    have e1: "- int (Suc j) + 1 = - int j"
      by simp
    have td: "to_double n 1 = (n * 2 ^ j, - int j)"
      using c by (simp only: to_double_def Let_def e0 e1 round_nearest_even_def)
        (simp del: power_Suc of_nat_Suc)
    show ?thesis
      using 3(1) by (simp add: double_round_def td double_floor_def del: power_Suc)
  qed
qed

lemma double_add_exact:
  "0 \<le> a \<Longrightarrow> 0 \<le> b \<Longrightarrow> a + b \<le> 2 ^ 53 \<Longrightarrow> double_add a b = a + b"
  by (simp add: double_add_def double_round_exact)

lemma sum_list_nonneg_int: "\<forall>x \<in> set xs. (0::int) \<le> x \<Longrightarrow> 0 \<le> sum_list xs"
  by (induction xs) simp_all

lemma foldl_double_add_exact:
  "0 \<le> a \<Longrightarrow> \<forall>x \<in> set xs. 0 \<le> x \<Longrightarrow> a + sum_list xs \<le> 2 ^ 53 \<Longrightarrow>
   foldl double_add a xs = a + sum_list xs"
proof (induction xs arbitrary: a)
  case Nil
  show ?case by simp
next
  case (Cons x xs)
  from Cons.prems have x: "0 \<le> x" and r: "\<forall>y \<in> set xs. 0 \<le> y"
    by simp_all
  from r have s: "0 \<le> sum_list xs"
    by (rule sum_list_nonneg_int)
  from Cons.prems(3) s have b: "a + x \<le> 2 ^ 53"
    by simp
  with Cons.prems(1) x have e: "double_add a x = a + x"
    by (simp add: double_add_exact)
  from Cons.prems(1) x have p: "0 \<le> a + x"
    by simp
  from Cons.prems(3) have t: "a + x + sum_list xs \<le> 2 ^ 53"
    by simp
  from Cons.IH [OF p r t] e show ?case
    by simp
qed

lemma totalStars_fold:
  "totalStars repos = foldl double_add 0 (map stargazers_count repos)"
  by (simp add: totalStars_def foldl_map)

section \<open>GitHub: the total of the stars\<close>

text \<open>
  Star counts \<open>[2 ^ 53, 1]\<close>: the \<open>reduce\<close> of the handler adds doubles, the sum
  \<open>2 ^ 53 + 1\<close> is not a double, and \<open>totalStars\<close> is \<open>2 ^ 53\<close>.
\<close>

theorem C7_doubles_counterexample:
  "totalStars [example_repo ''a'' (2 ^ 53), example_repo ''b'' 1] = 2 ^ 53 \<and>
   sum_list (map stargazers_count [example_repo ''a'' (2 ^ 53), example_repo ''b'' 1]) =
     2 ^ 53 + 1 \<and>
   get_field ''totalStars''
     (github_real_stats (\<lambda>i. 0) example_user
        [example_repo ''a'' (2 ^ 53), example_repo ''b'' 1]) = Some (JNum (2 ^ 53))"
proof -
  have t: "totalStars [example_repo ''a'' (2 ^ 53), example_repo ''b'' 1] = 2 ^ 53"
    by (simp add: totalStars_def example_repo_def double_add_def double_round_def
        double_floor_def to_double_def round_nearest_even_def Let_def bitlen.simps)
  have s: "sum_list (map stargazers_count [example_repo ''a'' (2 ^ 53), example_repo ''b'' 1]) =
     2 ^ 53 + 1"
    by (simp add: example_repo_def)
  have "get_field ''totalStars''
     (github_real_stats (\<lambda>i. 0) example_user
        [example_repo ''a'' (2 ^ 53), example_repo ''b'' 1]) =
     Some (JNum (of_int (totalStars [example_repo ''a'' (2 ^ 53), example_repo ''b'' 1])))"
    by (simp add: github_real_stats_def)
  with t s show ?thesis
    by simp
qed

text \<open>
  Claim C7, as the code has it. For every fetched repository list whose star counts are
  not negative and add up to at most \<open>2 ^ 53\<close>, the \<open>totalStars\<close> of the normalized
  record is the sum of \<open>stargazers_count\<close> over all repositories of the list: the
  \<open>reduce\<close> of the handler computes it, and the record carries it. Star counts
  \<open>[5, 0, 12]\<close> give \<open>17\<close>, and the empty list gives \<open>0\<close>.
\<close>

theorem C7_totalStars_is_sum:
  "(\<forall>r \<in> set repos. 0 \<le> stargazers_count r) \<Longrightarrow>
   sum_list (map stargazers_count repos) \<le> 2 ^ 53 \<Longrightarrow>
   totalStars repos = sum_list (map stargazers_count repos) \<and>
   get_field ''totalStars'' (github_real_stats clock userData repos) =
     Some (JNum (of_int (sum_list (map stargazers_count repos))))"
proof -
  assume n: "\<forall>r \<in> set repos. 0 \<le> stargazers_count r"
    and b: "sum_list (map stargazers_count repos) \<le> 2 ^ 53"
  from n have "\<forall>x \<in> set (map stargazers_count repos). 0 \<le> x"
    by simp
  with b have "foldl double_add 0 (map stargazers_count repos) =
      0 + sum_list (map stargazers_count repos)"
    by (intro foldl_double_add_exact) simp_all
  then have t: "totalStars repos = sum_list (map stargazers_count repos)"
    by (simp add: totalStars_fold)
  have "get_field ''totalStars'' (github_real_stats clock userData repos) =
      Some (JNum (of_int (totalStars repos)))"
    by (simp add: github_real_stats_def)
  with t show ?thesis
    by simp
qed

theorem C7_totalStars_witness:
  "map stargazers_count [example_repo ''a'' 5, example_repo ''b'' 0, example_repo ''c'' 12] =
     [5, 0, 12] \<and>
   totalStars [example_repo ''a'' 5, example_repo ''b'' 0, example_repo ''c'' 12] = 17 \<and>
   totalStars [] = 0 \<and>
   get_field ''totalStars''
     (github_real_stats (\<lambda>i. 0) example_user
        [example_repo ''a'' 5, example_repo ''b'' 0, example_repo ''c'' 12]) = Some (JNum 17)"
proof -
  have n: "\<forall>r \<in> set [example_repo ''a'' 5, example_repo ''b'' 0, example_repo ''c'' 12].
      0 \<le> stargazers_count r"
    by (simp add: example_repo_def)
  have b: "sum_list (map stargazers_count
      [example_repo ''a'' 5, example_repo ''b'' 0, example_repo ''c'' 12]) \<le> 2 ^ 53"
    by (simp add: example_repo_def)
  have e: "totalStars [] = 0"
    using C7_totalStars_is_sum [of "[]" "\<lambda>i. 0" example_user] by simp
  from C7_totalStars_is_sum [OF n b, of "\<lambda>i. 0" example_user] e show ?thesis
    by (simp add: example_repo_def)
qed

section \<open>LeetCode: the solved counts\<close>

lemma solved_spec: "solved userData label = spec_solved (breakdown userData) label"
  by (simp add: solved_def or_zero_def find_count_def spec_solved_def breakdown_def
      split: option.splits)

lemma spec_solved_missing:
  "\<forall>e \<in> set entries. difficulty e \<noteq> label \<Longrightarrow> spec_solved entries label = 0"
proof -
  assume "\<forall>e \<in> set entries. difficulty e \<noteq> label"
  then have "find (\<lambda>e. difficulty e = label) entries = None"
    by (simp add: find_None_iff)
  then show ?thesis
    by (simp add: spec_solved_def)
qed

text \<open>
  Claim C6. For every submission-count breakdown, \<open>totalSolved\<close>, \<open>easySolved\<close>,
  \<open>mediumSolved\<close> and \<open>hardSolved\<close> of the normalized record are the count of the
  first entry whose difficulty label is \<open>All\<close>, \<open>Easy\<close>, \<open>Medium\<close> and \<open>Hard\<close>, and
  \<open>0\<close> when no entry carries the label. In particular a breakdown with no \<open>All\<close> entry
  gives \<open>totalSolved = 0\<close>, not the sum of the other entries.
\<close>

theorem C6_solved_counts:
  "get_field ''totalSolved'' (leetcodeStats userData) =
     Some (JNum (of_int (spec_solved (breakdown userData) ''All''))) \<and>
   get_field ''easySolved'' (leetcodeStats userData) =
     Some (JNum (of_int (spec_solved (breakdown userData) ''Easy''))) \<and>
   get_field ''mediumSolved'' (leetcodeStats userData) =
     Some (JNum (of_int (spec_solved (breakdown userData) ''Medium''))) \<and>
   get_field ''hardSolved'' (leetcodeStats userData) =
     Some (JNum (of_int (spec_solved (breakdown userData) ''Hard''))) \<and>
   ((\<forall>e \<in> set (breakdown userData). difficulty e \<noteq> ''All'') \<longrightarrow>
      get_field ''totalSolved'' (leetcodeStats userData) = Some (JNum 0))"
proof -
  have "(\<forall>e \<in> set (breakdown userData). difficulty e \<noteq> ''All'') \<longrightarrow>
      spec_solved (breakdown userData) ''All'' = 0"
    by (simp add: spec_solved_missing)
  then show ?thesis
    by (simp add: leetcodeStats_def solved_spec)
qed

text \<open>
  The breakdown \<open>[{Easy, 3}, {Hard, 1}]\<close> of the specification: the total is \<open>0\<close>,
  not \<open>4\<close>.
\<close>

theorem C6_solved_counts_witness:
  "map difficulty (breakdown example_leetcode) = [''Easy'', ''Hard''] \<and>
   map ac_count (breakdown example_leetcode) = [3, 1] \<and>
   get_field ''totalSolved'' (leetcodeStats example_leetcode) = Some (JNum 0) \<and>
   get_field ''easySolved'' (leetcodeStats example_leetcode) = Some (JNum 3) \<and>
   get_field ''mediumSolved'' (leetcodeStats example_leetcode) = Some (JNum 0) \<and>
   get_field ''hardSolved'' (leetcodeStats example_leetcode) = Some (JNum 1)"
proof -
  have b: "breakdown example_leetcode =
      [\<lparr>difficulty = ''Easy'', ac_count = 3\<rparr>, \<lparr>difficulty = ''Hard'', ac_count = 1\<rparr>]"
    by (simp add: breakdown_def example_leetcode_def)
  have h: "\<forall>e \<in> set (breakdown example_leetcode). difficulty e \<noteq> ''All''"
    by (simp add: b)
  show ?thesis
    using h C6_solved_counts [of example_leetcode]
    by (simp add: b spec_solved_def)
qed

section \<open>LeetCode: the top tags\<close>

text \<open>
  Claim C8. For every payload, \<open>topTags\<close> is the concatenation of the advanced,
  intermediate and fundamental tiers (each empty when missing), sorted by
  \<open>problemsSolved\<close> in non-increasing order, entries of equal \<open>problemsSolved\<close> keeping
  the order of the concatenation, and cut to its first five entries. The sorted list \<open>s\<close>
  is a permutation of the concatenation, it is non-increasing, and for every value it
  has the entries of that value in the order the concatenation has them; these three
  properties determine it.
\<close>

theorem C8_topTags:
  "\<exists>s. mset s = mset (merged_tiers userData) \<and>
       sorted_wrt (\<lambda>a b. problemsSolved b \<le> problemsSolved a) s \<and>
       (\<forall>v. filter (\<lambda>t. problemsSolved t = v) s =
            filter (\<lambda>t. problemsSolved t = v) (merged_tiers userData)) \<and>
       topTags userData = take 5 s \<and>
       length (topTags userData) \<le> 5 \<and>
       get_field ''topTags'' (leetcodeStats userData) = Some (JArr (map tag_entry (take 5 s)))"
proof -
  let ?s = "sort_desc problemsSolved (merged_tiers userData)"
  have "mset ?s = mset (merged_tiers userData)"
    by (rule mset_sort_desc)
  moreover have "sorted_wrt (\<lambda>a b. problemsSolved b \<le> problemsSolved a) ?s"
    by (rule sorted_sort_desc)
  moreover have "\<forall>v. filter (\<lambda>t. problemsSolved t = v) ?s =
      filter (\<lambda>t. problemsSolved t = v) (merged_tiers userData)"
    by (simp add: filter_sort_desc)
  moreover have t: "topTags userData = take 5 ?s"
    by (simp add: topTags_def merged_tiers_def slice0_5)
  moreover have "length (topTags userData) \<le> 5"
    by (simp add: t)
  moreover have "get_field ''topTags'' (leetcodeStats userData) =
      Some (JArr (map tag_entry (take 5 ?s)))"
    by (simp add: leetcodeStats_def t)
  ultimately show ?thesis
    by blast
qed

text \<open>
  Tiers \<open>[A3, B5]\<close>, \<open>[C5, D1, E3]\<close> and \<open>[F5, G2]\<close>: the three fives come first, in
  the order \<open>B, C, F\<close> of the concatenation, then the threes \<open>A, E\<close>.
\<close>

theorem C8_topTags_witness:
  "merged_tiers example_leetcode =
     [example_tag ''A'' 3, example_tag ''B'' 5, example_tag ''C'' 5, example_tag ''D'' 1,
      example_tag ''E'' 3, example_tag ''F'' 5, example_tag ''G'' 2] \<and>
   topTags example_leetcode =
     [example_tag ''B'' 5, example_tag ''C'' 5, example_tag ''F'' 5, example_tag ''A'' 3,
      example_tag ''E'' 3]"
proof -
  have m: "merged_tiers example_leetcode =
     [example_tag ''A'' 3, example_tag ''B'' 5, example_tag ''C'' 5, example_tag ''D'' 1,
      example_tag ''E'' 3, example_tag ''F'' 5, example_tag ''G'' 2]"
    by (simp add: merged_tiers_def tag_tier_def example_leetcode_def)
  have t: "topTags example_leetcode =
     [example_tag ''B'' 5, example_tag ''C'' 5, example_tag ''F'' 5, example_tag ''A'' 3,
      example_tag ''E'' 3]"
    by (simp add: topTags_def tag_tier_def example_leetcode_def example_tag_def slice0_5)
  from C8_topTags [of example_leetcode] obtain s where
    "topTags example_leetcode = take 5 s" by blast
  with m t show ?thesis
    by simp
qed

section \<open>Lemmas: envelopes and the paths of the handlers\<close>

lemma error_envelope_fields:
  "status (error_envelope code e) = code \<and>
   get_field ''success'' (body (error_envelope code e)) = Some (JBool False) \<and>
   get_field ''error'' (body (error_envelope code e)) = Some e \<and>
   get_field ''data'' (body (error_envelope code e)) = None"
  by (simp add: error_envelope_def)

lemma success_envelope_fields:
  "status (success_envelope d) = 200 \<and>
   get_field ''success'' (body (success_envelope d)) = Some (JBool True) \<and>
   get_field ''data'' (body (success_envelope d)) = Some d \<and>
   get_field ''error'' (body (success_envelope d)) = None"
  by (simp add: success_envelope_def)

lemma find_none: "\<not> list_ex P xs \<Longrightarrow> find P xs = None"
  by (simp add: find_None_iff list_ex_iff)

lemma github_profile_missing:
  "binding_missing findOne user_id ''GitHub'' \<Longrightarrow>
   github_stats_by_profile findOne forward protocol host user_id =
     ([], error_envelope 404
            (JStr (if findOne user_id = Inr None then ''Profile not found''
                   else ''GitHub profile not found'')))"
  by (auto simp: binding_missing_def github_stats_by_profile_def find_none
      split: sum.splits option.splits)

lemma leetcode_profile_missing:
  "binding_missing findOne user_id ''LeetCode'' \<Longrightarrow>
   leetcode_stats_by_profile findOne post user_id =
     ([], error_envelope 404
            (JStr (if findOne user_id = Inr None then ''Profile not found''
                   else ''LeetCode profile not found'')))"
  by (auto simp: binding_missing_def leetcode_stats_by_profile_def find_none
      split: sum.splits option.splits)

lemma github_failure_synthesizes:
  "upstream_failed (get_user (github_user_request token username)) \<or>
   upstream_failed (get_repos (github_repos_request token username)) \<Longrightarrow>
   snd (github_stats_by_username token clock get_user get_repos username) =
     success_envelope (github_mock_stats clock username)"
  by (auto simp: upstream_failed_def github_stats_by_username_def Let_def
      split: sum.splits payload_body.splits)

lemma leetcode_failure_reported:
  "upstream_failed (post (leetcode_request username)) \<Longrightarrow>
   leetcode_fetch post username =
     ([leetcode_request username], error_envelope 500 (JStr ''Error fetching LeetCode stats''))"
  by (auto simp: upstream_failed_def leetcode_fetch_def Let_def
      split: sum.splits payload_body.splits)

lemma github_requests_issued:
  "set (fst (github_stats_by_username token clock get_user get_repos username)) \<subseteq>
     {github_user_request token username, github_repos_request token username} \<and>
   fst (github_stats_by_username token clock get_user get_repos username) \<noteq> []"
  by (auto simp: github_stats_by_username_def Let_def split: sum.splits)

lemma leetcode_requests_issued:
  "fst (leetcode_fetch post username) = [leetcode_request username]"
  by (auto simp: leetcode_fetch_def Let_def split: sum.splits payload_body.splits)

lemma leetcode_profile_requests_issued:
  "\<forall>q \<in> set (fst (leetcode_stats_by_profile findOne post user_id)). timeout q = None"
  by (auto simp: leetcode_stats_by_profile_def leetcode_requests_issued leetcode_request_def
      split: sum.splits option.splits)

lemma github_profile_requests_issued:
  "\<forall>q \<in> set (fst (github_stats_by_profile findOne forward protocol host user_id)).
     timeout q = None"
  by (auto simp: github_stats_by_profile_def github_forward_request_def Let_def
      split: sum.splits option.splits)

section \<open>Lemmas: the synthesized record\<close>

lemma mock_dataSource:
  "get_field ''dataSource'' (github_mock_stats clock username) =
     Some (JStr ''Mock Data (GitHub API unavailable)'')"
  by (simp add: github_mock_stats_def Let_def)

lemma real_dataSource:
  "get_field ''dataSource'' (github_real_stats clock userData repos) = Some (JStr ''GitHub API'')"
  by (simp add: github_real_stats_def)

lemma mock_lastUpdated:
  "get_field ''lastUpdated'' (github_mock_stats clock username) =
     Some (JIso (clock (length (mock_topRepos clock username))))"
  by (simp add: github_mock_stats_def Let_def)

lemma mock_topRepos_field:
  "get_field ''topRepos'' (github_mock_stats clock username) =
     Some (JArr (map mock_repo_entry (mock_topRepos clock username)))"
  by (simp add: github_mock_stats_def Let_def)

lemma set_slice0: "set (slice0 n xs) \<subseteq> set xs"
  by (auto simp: slice0_def dest: in_set_takeD)

lemma length_mock_topRepos:
  "length (mock_topRepos clock username) =
     length (slice0 (random_sel (seed username) 3 8) repoNames)"
  by (simp add: mock_topRepos_def)

lemma mock_topRepos_nth:
  "i < length (mock_topRepos clock username) \<Longrightarrow>
   mock_topRepos clock username ! i =
     mock_repo_of clock username (i, slice0 (random_sel (seed username) 3 8) repoNames ! i)"
  by (simp add: mock_topRepos_def nth_enumerate_eq)

text \<open>Every entry comes from a name of the vocabulary and a position.\<close>

lemma mock_topRepos_member:
  "r \<in> set (mock_topRepos clock username) \<Longrightarrow>
   \<exists>i name. name \<in> set repoNames \<and> r = mock_repo_of clock username (i, name)"
proof -
  assume "r \<in> set (mock_topRepos clock username)"
  then have "r \<in> mock_repo_of clock username `
      set (enumerate 0 (slice0 (random_sel (seed username) 3 8) repoNames))"
    by (simp add: mock_topRepos_def)
  then obtain p where
    p: "p \<in> set (enumerate 0 (slice0 (random_sel (seed username) 3 8) repoNames))"
    and r: "r = mock_repo_of clock username p"
    by blast
  obtain i name where pe: "p = (i, name)"
    by (cases p)
  from p pe have l: "i < length (slice0 (random_sel (seed username) 3 8) repoNames)"
    and e: "slice0 (random_sel (seed username) 3 8) repoNames ! i = name"
    by (simp_all add: in_set_enumerate_eq)
  from l have "slice0 (random_sel (seed username) 3 8) repoNames ! i \<in>
      set (slice0 (random_sel (seed username) 3 8) repoNames)"
    by (rule nth_mem)
  with e have "name \<in> set (slice0 (random_sel (seed username) 3 8) repoNames)"
    by simp
  then have "name \<in> set repoNames"
    by (rule subsetD [OF set_slice0])
  with r pe show ?thesis
    by (intro exI [of _ i] exI [of _ name] conjI) simp_all
qed

lemma mock_repo_of_fields:
  "get_field ''stars'' (mock_repo_entry (mock_repo_of clock username (i, name))) =
     Some (JNum (of_int (random_sel (seed username) 0 150))) \<and>
   get_field ''forks'' (mock_repo_entry (mock_repo_of clock username (i, name))) =
     Some (JNum (of_int (random_sel (seed username) 0 50))) \<and>
   get_field ''name'' (mock_repo_entry (mock_repo_of clock username (i, name))) =
     Some (JStr (name @ ''-'' @ string_of_int (random_sel (seed username) 1 99))) \<and>
   get_field ''updatedAt'' (mock_repo_entry (mock_repo_of clock username (i, name))) =
     Some (JIso (clock i - random_sel (seed username) 1 90 * 24 * 60 * 60 * 1000))"
  by (simp add: mock_repo_entry_def mock_repo_of_def Let_def)

lemma mock_topRepos_entries:
  "r \<in> set (mock_topRepos clock username) \<Longrightarrow>
   get_field ''stars'' (mock_repo_entry r) =
     Some (JNum (of_int (random_sel (seed username) 0 150))) \<and>
   get_field ''forks'' (mock_repo_entry r) =
     Some (JNum (of_int (random_sel (seed username) 0 50))) \<and>
   (\<exists>name \<in> set repoNames.
      get_field ''name'' (mock_repo_entry r) =
        Some (JStr (name @ ''-'' @ string_of_int (random_sel (seed username) 1 99))))"
proof -
  assume "r \<in> set (mock_topRepos clock username)"
  then have "\<exists>i name. name \<in> set repoNames \<and> r = mock_repo_of clock username (i, name)"
    by (rule mock_topRepos_member)
  then obtain i name where n: "name \<in> set repoNames"
    and r: "r = mock_repo_of clock username (i, name)"
    by (elim exE conjE)
  have s: "get_field ''stars'' (mock_repo_entry r) =
     Some (JNum (of_int (random_sel (seed username) 0 150)))"
    by (simp add: r mock_repo_of_fields)
  have f: "get_field ''forks'' (mock_repo_entry r) =
     Some (JNum (of_int (random_sel (seed username) 0 50)))"
    by (simp add: r mock_repo_of_fields)
  have "get_field ''name'' (mock_repo_entry r) =
     Some (JStr (name @ ''-'' @ string_of_int (random_sel (seed username) 1 99)))"
    by (simp add: r mock_repo_of_fields)
  with n have e: "\<exists>name \<in> set repoNames.
      get_field ''name'' (mock_repo_entry r) =
        Some (JStr (name @ ''-'' @ string_of_int (random_sel (seed username) 1 99)))"
    by (rule_tac x = name in bexI)
  from s f e show ?thesis
    by (intro conjI)
qed

text \<open>What of the synthesized record does not read the clock.\<close>

lemma mock_stars_clock_free:
  "map mock_stars (mock_topRepos clock username) =
     map (\<lambda>p. random_sel (seed username) 0 150)
       (enumerate 0 (slice0 (random_sel (seed username) 3 8) repoNames))"
  by (simp add: mock_topRepos_def mock_repo_of_def Let_def split_def)

lemma mock_totalStars_clock_free:
  "foldl (\<lambda>acc repo. double_add acc (mock_stars repo)) 0 (mock_topRepos clock username) =
     foldl double_add 0
       (replicate (length (slice0 (random_sel (seed username) 3 8) repoNames))
          (random_sel (seed username) 0 150))"
proof -
  have "foldl (\<lambda>acc repo. double_add acc (mock_stars repo)) 0 (mock_topRepos clock username) =
      foldl double_add 0 (map mock_stars (mock_topRepos clock username))"
    by (simp add: foldl_map)
  then show ?thesis
    by (simp add: mock_stars_clock_free map_replicate_const)
qed

lemma mock_fields_clock_free:
  "k \<noteq> ''lastUpdated'' \<Longrightarrow> k \<noteq> ''topRepos'' \<Longrightarrow>
   get_field k (github_mock_stats clock username) =
     get_field k (github_mock_stats clock' username)"
  by (simp add: github_mock_stats_def Let_def mock_totalStars_clock_free)

lemma mock_entry_clock_free:
  "f \<noteq> ''updatedAt'' \<Longrightarrow>
   get_field f (mock_repo_entry (mock_repo_of clock username p)) =
     get_field f (mock_repo_entry (mock_repo_of clock' username p))"
  by (simp add: mock_repo_entry_def mock_repo_of_def Let_def split_def)

text \<open>The synthesized record and its entries, field by field.\<close>

lemma mock_record_fields:
  "field_names (github_mock_stats clock username) =
     [''username'', ''name'', ''avatarUrl'', ''bio'', ''company'', ''blog'', ''location'',
      ''followers'', ''following'', ''publicRepos'', ''publicGists'', ''totalStars'',
      ''languages'', ''topRepos'', ''dataSource'', ''lastUpdated''] \<and>
   get_field ''username'' (github_mock_stats clock username) = Some (JStr username) \<and>
   get_field ''name'' (github_mock_stats clock username) = Some (JStr (capitalize username)) \<and>
   get_field ''avatarUrl'' (github_mock_stats clock username) =
     Some (JStr (''https://github.com/'' @ username @ ''.png'')) \<and>
   get_field ''bio'' (github_mock_stats clock username) =
     Some (JStr ''Software developer passionate about coding and open source'') \<and>
   get_field ''company'' (github_mock_stats clock username) =
     Some (if random_sel (seed username) 0 1 \<noteq> 0 then JStr ''Tech Company'' else JNull) \<and>
   get_field ''blog'' (github_mock_stats clock username) =
     Some (if random_sel (seed username) 0 1 \<noteq> 0 then JStr (''https://'' @ username @ ''.dev'')
           else JNull) \<and>
   get_field ''location'' (github_mock_stats clock username) =
     Some (case index [''San Francisco'', ''New York'', ''London'', ''Berlin'', ''Tokyo'']
                  (random_sel (seed username) 0 4) of
             None \<Rightarrow> JUndefined
           | Some l \<Rightarrow> JStr l) \<and>
   get_field ''followers'' (github_mock_stats clock username) =
     Some (JNum (of_int (random_sel (seed username) 10 500))) \<and>
   get_field ''following'' (github_mock_stats clock username) =
     Some (JNum (of_int (random_sel (seed username) 20 200))) \<and>
   get_field ''publicRepos'' (github_mock_stats clock username) =
     Some (JNum (of_int (random_sel (seed username) 5 50))) \<and>
   get_field ''publicGists'' (github_mock_stats clock username) =
     Some (JNum (of_int (random_sel (seed username) 0 20))) \<and>
   get_field ''totalStars'' (github_mock_stats clock username) =
     Some (JNum (of_int (foldl double_add 0
       (replicate (length (slice0 (random_sel (seed username) 3 8) repoNames))
          (random_sel (seed username) 0 150))))) \<and>
   get_field ''languages'' (github_mock_stats clock username) =
     Some (JArr (map (\<lambda>lang. JObj [(''name'', JStr lang),
                                   (''count'', JNum (of_int (random_sel (seed username) 1 15)))])
                  (slice0 (random_sel (seed username) 3 6)
                     [''JavaScript'', ''Python'', ''Java'', ''TypeScript'', ''C++'', ''Go'',
                      ''Rust'', ''PHP'']))) \<and>
   get_field ''dataSource'' (github_mock_stats clock username) =
     Some (JStr ''Mock Data (GitHub API unavailable)'') \<and>
   get_field ''lastUpdated'' (github_mock_stats clock username) =
     Some (JIso (clock (length (slice0 (random_sel (seed username) 3 8) repoNames))))"
  by (simp add: github_mock_stats_def Let_def mock_totalStars_clock_free length_mock_topRepos
      mock_locations_def selectedLanguages_def mock_language_entry_def mock_languages_def
      comp_def)

lemma mock_entry_fields:
  "field_names (mock_repo_entry (mock_repo_of clock username (i, name))) =
     [''name'', ''description'', ''stars'', ''forks'', ''url'', ''language'', ''updatedAt''] \<and>
   get_field ''name'' (mock_repo_entry (mock_repo_of clock username (i, name))) =
     Some (JStr (name @ ''-'' @ string_of_int (random_sel (seed username) 1 99))) \<and>
   get_field ''description'' (mock_repo_entry (mock_repo_of clock username (i, name))) =
     Some (JStr (''A '' @ replace_first (CHR ''-'') (CHR '' '') name @
                 '' built with modern technologies'')) \<and>
   get_field ''stars'' (mock_repo_entry (mock_repo_of clock username (i, name))) =
     Some (JNum (of_int (random_sel (seed username) 0 150))) \<and>
   get_field ''forks'' (mock_repo_entry (mock_repo_of clock username (i, name))) =
     Some (JNum (of_int (random_sel (seed username) 0 50))) \<and>
   get_field ''url'' (mock_repo_entry (mock_repo_of clock username (i, name))) =
     Some (JStr (''https://github.com/'' @ username @ ''/'' @ name)) \<and>
   get_field ''language'' (mock_repo_entry (mock_repo_of clock username (i, name))) =
     Some (JStr (case index (selectedLanguages (seed username))
                        (random_sel (seed username) 0
                           (int (length (selectedLanguages (seed username))) - 1)) of
                   None \<Rightarrow> ''JavaScript''
                 | Some (l, c) \<Rightarrow> if l \<noteq> [] then l else ''JavaScript'')) \<and>
   get_field ''updatedAt'' (mock_repo_entry (mock_repo_of clock username (i, name))) =
     Some (JIso (clock i - random_sel (seed username) 1 90 * 24 * 60 * 60 * 1000))"
  by (simp add: mock_repo_entry_def mock_repo_of_def Let_def)


lemma mock_topRepos_at:
  "i < length (slice0 (random_sel (seed username) 3 8) repoNames) \<Longrightarrow>
   mock_topRepos clock username ! i =
     mock_repo_of clock username (i, slice0 (random_sel (seed username) 3 8) repoNames ! i)"
  by (simp add: length_mock_topRepos mock_topRepos_nth)

section \<open>Lemmas: the synthesized record of one user name\<close>

lemmas double_eval = random_sel_def double_floor_def double_times_def to_double_def
  round_nearest_even_def Let_def bitlen.simps

lemma seed_octocat: "seed ''octocat'' = 749"
  by (simp add: seed_def)

lemma octocat_repo_selectors:
  "random_sel 749 3 8 = 7 \<and> random_sel 749 0 150 = 113 \<and> random_sel 749 0 50 = 38 \<and>
   random_sel 749 1 99 = 75"
  by (simp add: double_eval)

lemma octocat_followers: "random_sel 749 10 500 = 377"
  by (simp add: double_eval)

lemma octocat_days: "random_sel 749 1 90 = 68"
  by (simp add: double_eval)

text \<open>The selector rounds as doubles do: in exact arithmetic \<open>0.7 * 90\<close> is \<open>63\<close>.\<close>

lemma selector_rounds: "random_sel 700 1 90 = 63"
  by (simp add: double_eval)

lemma string_of_75: "string_of_int 75 = ''75''"
  by (simp add: string_of_int_def string_of_nat.simps digit_char_def)

lemma octocat_topRepos_length: "length (mock_topRepos clock ''octocat'') = 7"
  by (simp add: length_mock_topRepos seed_octocat octocat_repo_selectors slice0_def repoNames_def)

lemma octocat_names:
  "slice0 7 repoNames ! 0 = ''awesome-project'' \<and> slice0 7 repoNames ! 6 = ''portfolio-website''"
  by (simp add: slice0_def repoNames_def)

lemma octocat_first_char: "map of_char (take 1 ''octocat'') = [111::int]"
  by simp

lemma octocat_slice_length: "length (slice0 7 repoNames) = 7"
  by (simp add: slice0_def repoNames_def)

lemma octocat_totalStars: "foldl double_add 0 (replicate 7 113) = 791"
  by (simp add: eval_nat_numeral double_add_exact)

lemma upper_o: "toUpperCase CHR ''o'' = CHR ''O''"
  by (simp add: toUpperCase_def char_of_def)

section \<open>Upstream failure on the username endpoints\<close>

text \<open>
  The LeetCode username endpoint with an upstream that times out, for the user name
  \<open>octocat\<close>: the response has status \<open>500\<close>, \<open>success: false\<close> and no data. The
  failure is surfaced, not absorbed.
\<close>

theorem C1_leetcode_counterexample:
  "status (snd (leetcode_stats_by_username (\<lambda>q. Inl Timeout) ''octocat'')) = 500 \<and>
   get_field ''success'' (body (snd (leetcode_stats_by_username (\<lambda>q. Inl Timeout) ''octocat''))) =
     Some (JBool False) \<and>
   get_field ''data'' (body (snd (leetcode_stats_by_username (\<lambda>q. Inl Timeout) ''octocat''))) =
     None"
  by (simp add: leetcode_stats_by_username_def leetcode_fetch_def Let_def error_envelope_def)

text \<open>
  Claim C1, as the code has it. On the GitHub username endpoint, for every user name:
  when either upstream call fails (it throws on a timeout, a network or an HTTP error, or
  its payload is one that the reads of the handler throw on), the response is the
  \<open>success: true\<close> envelope with status \<open>200\<close> around the synthesized record,
  whose \<open>dataSource\<close> is \<open>Mock Data (GitHub API unavailable)\<close>, where a normalized
  record says \<open>GitHub API\<close>. On the LeetCode username endpoint a failed upstream call
  gives status \<open>500\<close> and \<open>success: false\<close> with the error
  \<open>Error fetching LeetCode stats\<close>: that router has no synthesis.
\<close>

theorem C1_upstream_failure:
  "(upstream_failed (get_user (github_user_request token username)) \<or>
    upstream_failed (get_repos (github_repos_request token username)) \<longrightarrow>
      snd (github_stats_by_username token clock get_user get_repos username) =
        success_envelope (github_mock_stats clock username)) \<and>
   status (success_envelope (github_mock_stats clock username)) = 200 \<and>
   get_field ''success'' (body (success_envelope (github_mock_stats clock username))) =
     Some (JBool True) \<and>
   get_field ''data'' (body (success_envelope (github_mock_stats clock username))) =
     Some (github_mock_stats clock username) \<and>
   get_field ''dataSource'' (github_mock_stats clock username) =
     Some (JStr ''Mock Data (GitHub API unavailable)'') \<and>
   get_field ''dataSource'' (github_real_stats clock userData repos) = Some (JStr ''GitHub API'') \<and>
   (upstream_failed (post (leetcode_request username)) \<longrightarrow>
      snd (leetcode_stats_by_username post username) =
        error_envelope 500 (JStr ''Error fetching LeetCode stats'') \<and>
      get_field ''success'' (body (snd (leetcode_stats_by_username post username))) =
        Some (JBool False))"
proof -
  have "upstream_failed (post (leetcode_request username)) \<longrightarrow>
      snd (leetcode_stats_by_username post username) =
        error_envelope 500 (JStr ''Error fetching LeetCode stats'') \<and>
      get_field ''success'' (body (snd (leetcode_stats_by_username post username))) =
        Some (JBool False)"
    using leetcode_failure_reported [of post username]
    by (simp add: leetcode_stats_by_username_def error_envelope_fields)
  then show ?thesis
    using github_failure_synthesizes [of get_user token username get_repos clock]
      success_envelope_fields [of "github_mock_stats clock username"]
      mock_dataSource [of clock username] real_dataSource [of clock userData repos]
    by blast
qed

text \<open>
  GitHub answers \<open>403\<close> to the profile request; LeetCode sends a body without \<open>data\<close>.
\<close>

theorem C1_upstream_failure_witness:
  "upstream_failed (Inl (HttpError 403 JNull) :: failure + github_user payload_body) \<and>
   upstream_failed (Inr Malformed :: failure + leetcode_data payload_body) \<and>
   snd (github_stats_by_username None (\<lambda>i. 0) (\<lambda>q. Inl (HttpError 403 JNull))
          (\<lambda>q. Inr (Shaped [])) ''octocat'') =
     success_envelope (github_mock_stats (\<lambda>i. 0) ''octocat'') \<and>
   snd (leetcode_stats_by_username (\<lambda>q. Inr Malformed) ''octocat'') =
     error_envelope 500 (JStr ''Error fetching LeetCode stats'')"
proof -
  have a: "upstream_failed (Inl (HttpError 403 JNull) :: failure + github_user payload_body)"
    by (simp add: upstream_failed_def)
  have b: "upstream_failed (Inr Malformed :: failure + leetcode_data payload_body)"
    by (simp add: upstream_failed_def)
  from a b C1_upstream_failure [of "\<lambda>q. Inl (HttpError 403 JNull)" None "''octocat''"
      "\<lambda>q. Inr (Shaped [])" "\<lambda>i. 0" example_user "[]" "\<lambda>q. Inr Malformed"]
  show ?thesis
    by simp
qed

section \<open>The synthesis and the clock\<close>

text \<open>
  Two syntheses for the user name \<open>octocat\<close>, one with the clock at \<open>0\<close> and one with
  the clock at \<open>1\<close>: the records differ (in \<open>lastUpdated\<close>).
\<close>

theorem C2_clock_counterexample:
  "github_mock_stats (\<lambda>i. 0) ''octocat'' \<noteq> github_mock_stats (\<lambda>i. 1) ''octocat''"
proof
  assume "github_mock_stats (\<lambda>i. 0) ''octocat'' = github_mock_stats (\<lambda>i. 1) ''octocat''"
  then have "get_field ''lastUpdated'' (github_mock_stats (\<lambda>i. 0) ''octocat'') =
    get_field ''lastUpdated'' (github_mock_stats (\<lambda>i. 1) ''octocat'')"
    by simp
  then show False
    by (simp add: mock_lastUpdated)
qed

text \<open>
  Claim C2, as the code has it. The synthesis draws on no randomness: the record is
  computed from the user name and the readings of the clock. For every user name, two
  syntheses agree on every field of the record other than \<open>lastUpdated\<close> and
  \<open>topRepos\<close>, \<open>topRepos\<close> has the same length in both, and entries at the same
  position agree on every field other than \<open>updatedAt\<close>. \<open>lastUpdated\<close> is the current
  time, and the \<open>updatedAt\<close> of an entry is the current time less a number of days that
  the user name determines.
\<close>

theorem C2_synthesis_and_clock:
  "(k \<noteq> ''lastUpdated'' \<and> k \<noteq> ''topRepos'' \<longrightarrow>
      get_field k (github_mock_stats clock username) =
        get_field k (github_mock_stats clock' username)) \<and>
   get_field ''lastUpdated'' (github_mock_stats clock username) =
     Some (JIso (clock (length (mock_topRepos clock username)))) \<and>
   get_field ''topRepos'' (github_mock_stats clock username) =
     Some (JArr (map mock_repo_entry (mock_topRepos clock username))) \<and>
   length (mock_topRepos clock username) = length (mock_topRepos clock' username) \<and>
   (i < length (mock_topRepos clock username) \<longrightarrow>
      (f \<noteq> ''updatedAt'' \<longrightarrow>
         get_field f (mock_repo_entry (mock_topRepos clock username ! i)) =
           get_field f (mock_repo_entry (mock_topRepos clock' username ! i))) \<and>
      get_field ''updatedAt'' (mock_repo_entry (mock_topRepos clock username ! i)) =
        Some (JIso (clock i - random_sel (seed username) 1 90 * 24 * 60 * 60 * 1000)))"
proof (intro conjI impI)
  assume "k \<noteq> ''lastUpdated'' \<and> k \<noteq> ''topRepos''"
  then show "get_field k (github_mock_stats clock username) =
        get_field k (github_mock_stats clock' username)"
    by (simp add: mock_fields_clock_free)
next
  show "get_field ''lastUpdated'' (github_mock_stats clock username) =
     Some (JIso (clock (length (mock_topRepos clock username))))"
    by (rule mock_lastUpdated)
next
  show "get_field ''topRepos'' (github_mock_stats clock username) =
     Some (JArr (map mock_repo_entry (mock_topRepos clock username)))"
    by (rule mock_topRepos_field)
next
  show "length (mock_topRepos clock username) = length (mock_topRepos clock' username)"
    by (simp add: length_mock_topRepos)
next
  assume "i < length (mock_topRepos clock username)" and "f \<noteq> ''updatedAt''"
  then show "get_field f (mock_repo_entry (mock_topRepos clock username ! i)) =
           get_field f (mock_repo_entry (mock_topRepos clock' username ! i))"
    by (simp add: mock_topRepos_nth length_mock_topRepos mock_entry_clock_free)
next
  assume "i < length (mock_topRepos clock username)"
  then show "get_field ''updatedAt'' (mock_repo_entry (mock_topRepos clock username ! i)) =
        Some (JIso (clock i - random_sel (seed username) 1 90 * 24 * 60 * 60 * 1000))"
    by (simp add: mock_topRepos_nth mock_repo_of_fields)
qed

text \<open>
  \<open>octocat\<close> with the clock at \<open>0\<close> and a day later: the followers and the stars of
  the first entry are the same, the \<open>updatedAt\<close> of the first entry is \<open>68\<close> days before
  the reading.
\<close>

theorem C2_synthesis_and_clock_witness:
  "''followers'' \<noteq> ''lastUpdated'' \<and> ''followers'' \<noteq> ''topRepos'' \<and>
   ''stars'' \<noteq> ''updatedAt'' \<and>
   (0::nat) < length (mock_topRepos (\<lambda>i. 0) ''octocat'') \<and>
   get_field ''followers'' (github_mock_stats (\<lambda>i. 0) ''octocat'') =
     get_field ''followers'' (github_mock_stats (\<lambda>i. 86400000) ''octocat'') \<and>
   get_field ''stars'' (mock_repo_entry (mock_topRepos (\<lambda>i. 0) ''octocat'' ! 0)) =
     get_field ''stars'' (mock_repo_entry (mock_topRepos (\<lambda>i. 86400000) ''octocat'' ! 0)) \<and>
   get_field ''lastUpdated'' (github_mock_stats (\<lambda>i. 0) ''octocat'') = Some (JIso 0) \<and>
   get_field ''updatedAt'' (mock_repo_entry (mock_topRepos (\<lambda>i. 0) ''octocat'' ! 0)) =
     Some (JIso (- 5875200000))"
  using C2_synthesis_and_clock
    [of "''followers''" "\<lambda>i. 0" "''octocat''" "\<lambda>i. 86400000" 0 "''stars''"]
  by (simp add: seed_octocat octocat_days octocat_topRepos_length)

section \<open>The profile-bound lookup without a binding\<close>

text \<open>
  Claim C3. For every user id: when the store has no profile for it, or a profile with
  no binding of the requested platform, the profile-bound endpoint of either platform
  answers status \<open>404\<close> with \<open>success: false\<close> and the error \<open>Profile not found\<close>
  or \<open>GitHub profile not found\<close> (\<open>LeetCode profile not found\<close>). It issues no
  request and the envelope carries no data: nothing is synthesized.
\<close>

theorem C3_binding_not_found:
  "(binding_missing findOne user_id ''GitHub'' \<longrightarrow>
      github_stats_by_profile findOne forward protocol host user_id =
        ([], error_envelope 404
               (JStr (if findOne user_id = Inr None then ''Profile not found''
                      else ''GitHub profile not found'')))) \<and>
   (binding_missing findOne user_id ''LeetCode'' \<longrightarrow>
      leetcode_stats_by_profile findOne post user_id =
        ([], error_envelope 404
               (JStr (if findOne user_id = Inr None then ''Profile not found''
                      else ''LeetCode profile not found'')))) \<and>
   status (error_envelope 404 e) = 404 \<and>
   get_field ''success'' (body (error_envelope 404 e)) = Some (JBool False) \<and>
   get_field ''error'' (body (error_envelope 404 e)) = Some e \<and>
   get_field ''data'' (body (error_envelope 404 e)) = None"
proof (intro conjI impI)
  assume "binding_missing findOne user_id ''GitHub''"
  then show "github_stats_by_profile findOne forward protocol host user_id =
        ([], error_envelope 404
               (JStr (if findOne user_id = Inr None then ''Profile not found''
                      else ''GitHub profile not found'')))"
    by (rule github_profile_missing)
next
  assume "binding_missing findOne user_id ''LeetCode''"
  then show "leetcode_stats_by_profile findOne post user_id =
        ([], error_envelope 404
               (JStr (if findOne user_id = Inr None then ''Profile not found''
                      else ''LeetCode profile not found'')))"
    by (rule leetcode_profile_missing)
qed (simp_all add: error_envelope_fields)

text \<open>
  \<open>carol\<close> has no profile; \<open>alice\<close> has one without a GitHub binding (and with a
  LeetCode binding, from which a record could be made).
\<close>

theorem C3_binding_not_found_witness:
  "binding_missing example_store ''carol'' ''GitHub'' \<and>
   binding_missing example_store ''carol'' ''LeetCode'' \<and>
   github_stats_by_profile example_store (\<lambda>q. Inl Timeout) ''http'' ''localhost'' ''carol'' =
     ([], error_envelope 404 (JStr ''Profile not found'')) \<and>
   leetcode_stats_by_profile example_store (\<lambda>q. Inl Timeout) ''carol'' =
     ([], error_envelope 404 (JStr ''Profile not found'')) \<and>
   example_store ''carol'' = Inr None"
proof -
  have c: "binding_missing example_store ''carol'' ''GitHub''"
    and d: "binding_missing example_store ''carol'' ''LeetCode''"
    by (simp_all add: binding_missing_def example_store_def)
  have n: "example_store ''carol'' = Inr None"
    by (simp add: example_store_def)
  from c d n C3_binding_not_found
    [of example_store "''carol''" "\<lambda>q. Inl Timeout" "''http''" "''localhost''"
        "\<lambda>q. Inl Timeout" JNull]
  show ?thesis
    by simp
qed

section \<open>GitHub: the profile arrives and the repository list does not\<close>

text \<open>
  Claim C4. On the GitHub username endpoint, when the user-profile request succeeds and
  the repository-listing request fails, both requests have been issued and the response
  is the one a failed profile request gets: status \<open>200\<close>, \<open>success: true\<close>, no
  error, and as data the full synthesized record. Each of its sixteen fields is what the
  synthesis makes of the user name (and of the clock, for the time stamps), and so is
  each field of each entry of \<open>topRepos\<close>; nothing of the fetched profile enters it.
  (The capital of \<open>name\<close> is stated for a user name that starts with an ASCII
  character.)
\<close>

theorem C4_partial_failure:
  "get_user (github_user_request token username) = Inr userResponse \<Longrightarrow>
   get_repos (github_repos_request token username) = Inl apiError \<Longrightarrow>
   github_stats_by_username token clock get_user get_repos username =
     ([github_user_request token username, github_repos_request token username],
      success_envelope (github_mock_stats clock username)) \<and>
   snd (github_stats_by_username token clock get_user get_repos username) =
     snd (github_stats_by_username token clock (\<lambda>q. Inl apiError) get_repos username) \<and>
   status (success_envelope (github_mock_stats clock username)) = 200 \<and>
   get_field ''success'' (body (success_envelope (github_mock_stats clock username))) =
     Some (JBool True) \<and>
   get_field ''error'' (body (success_envelope (github_mock_stats clock username))) = None \<and>
   get_field ''data'' (body (success_envelope (github_mock_stats clock username))) =
     Some (github_mock_stats clock username) \<and>
   field_names (github_mock_stats clock username) =
     [''username'', ''name'', ''avatarUrl'', ''bio'', ''company'', ''blog'', ''location'',
      ''followers'', ''following'', ''publicRepos'', ''publicGists'', ''totalStars'',
      ''languages'', ''topRepos'', ''dataSource'', ''lastUpdated''] \<and>
   get_field ''username'' (github_mock_stats clock username) = Some (JStr username) \<and>
   ((\<forall>c \<in> set (take 1 username). of_char c < (128::int)) \<longrightarrow>
      get_field ''name'' (github_mock_stats clock username) =
        Some (JStr (capitalize username))) \<and>
   get_field ''avatarUrl'' (github_mock_stats clock username) =
     Some (JStr (''https://github.com/'' @ username @ ''.png'')) \<and>
   get_field ''bio'' (github_mock_stats clock username) =
     Some (JStr ''Software developer passionate about coding and open source'') \<and>
   get_field ''company'' (github_mock_stats clock username) =
     Some (if random_sel (seed username) 0 1 \<noteq> 0 then JStr ''Tech Company'' else JNull) \<and>
   get_field ''blog'' (github_mock_stats clock username) =
     Some (if random_sel (seed username) 0 1 \<noteq> 0 then JStr (''https://'' @ username @ ''.dev'')
           else JNull) \<and>
   get_field ''location'' (github_mock_stats clock username) =
     Some (case index [''San Francisco'', ''New York'', ''London'', ''Berlin'', ''Tokyo'']
                  (random_sel (seed username) 0 4) of
             None \<Rightarrow> JUndefined
           | Some l \<Rightarrow> JStr l) \<and>
   get_field ''followers'' (github_mock_stats clock username) =
     Some (JNum (of_int (random_sel (seed username) 10 500))) \<and>
   get_field ''following'' (github_mock_stats clock username) =
     Some (JNum (of_int (random_sel (seed username) 20 200))) \<and>
   get_field ''publicRepos'' (github_mock_stats clock username) =
     Some (JNum (of_int (random_sel (seed username) 5 50))) \<and>
   get_field ''publicGists'' (github_mock_stats clock username) =
     Some (JNum (of_int (random_sel (seed username) 0 20))) \<and>
   get_field ''totalStars'' (github_mock_stats clock username) =
     Some (JNum (of_int (foldl double_add 0
       (replicate (length (slice0 (random_sel (seed username) 3 8) repoNames))
          (random_sel (seed username) 0 150))))) \<and>
   get_field ''languages'' (github_mock_stats clock username) =
     Some (JArr (map (\<lambda>lang. JObj [(''name'', JStr lang),
                                   (''count'', JNum (of_int (random_sel (seed username) 1 15)))])
                  (slice0 (random_sel (seed username) 3 6)
                     [''JavaScript'', ''Python'', ''Java'', ''TypeScript'', ''C++'', ''Go'',
                      ''Rust'', ''PHP'']))) \<and>
   get_field ''dataSource'' (github_mock_stats clock username) =
     Some (JStr ''Mock Data (GitHub API unavailable)'') \<and>
   get_field ''lastUpdated'' (github_mock_stats clock username) =
     Some (JIso (clock (length (slice0 (random_sel (seed username) 3 8) repoNames)))) \<and>
   get_field ''topRepos'' (github_mock_stats clock username) =
     Some (JArr (map mock_repo_entry (mock_topRepos clock username))) \<and>
   length (map mock_repo_entry (mock_topRepos clock username)) =
     length (slice0 (random_sel (seed username) 3 8) repoNames) \<and>
   (i < length (slice0 (random_sel (seed username) 3 8) repoNames) \<longrightarrow>
      field_names (map mock_repo_entry (mock_topRepos clock username) ! i) =
        [''name'', ''description'', ''stars'', ''forks'', ''url'', ''language'', ''updatedAt''] \<and>
      get_field ''name'' (map mock_repo_entry (mock_topRepos clock username) ! i) =
        Some (JStr (slice0 (random_sel (seed username) 3 8) repoNames ! i @ ''-'' @
                    string_of_int (random_sel (seed username) 1 99))) \<and>
      get_field ''description'' (map mock_repo_entry (mock_topRepos clock username) ! i) =
        Some (JStr (''A '' @
                    replace_first (CHR ''-'') (CHR '' '')
                      (slice0 (random_sel (seed username) 3 8) repoNames ! i) @
                    '' built with modern technologies'')) \<and>
      get_field ''stars'' (map mock_repo_entry (mock_topRepos clock username) ! i) =
        Some (JNum (of_int (random_sel (seed username) 0 150))) \<and>
      get_field ''forks'' (map mock_repo_entry (mock_topRepos clock username) ! i) =
        Some (JNum (of_int (random_sel (seed username) 0 50))) \<and>
      get_field ''url'' (map mock_repo_entry (mock_topRepos clock username) ! i) =
        Some (JStr (''https://github.com/'' @ username @ ''/'' @
                    slice0 (random_sel (seed username) 3 8) repoNames ! i)) \<and>
      get_field ''language'' (map mock_repo_entry (mock_topRepos clock username) ! i) =
        Some (JStr (case index (selectedLanguages (seed username))
                           (random_sel (seed username) 0
                              (int (length (selectedLanguages (seed username))) - 1)) of
                      None \<Rightarrow> ''JavaScript''
                    | Some (l, c) \<Rightarrow> if l \<noteq> [] then l else ''JavaScript'')) \<and>
      get_field ''updatedAt'' (map mock_repo_entry (mock_topRepos clock username) ! i) =
        Some (JIso (clock i - random_sel (seed username) 1 90 * 24 * 60 * 60 * 1000)))"
proof -
  assume u: "get_user (github_user_request token username) = Inr userResponse"
    and r: "get_repos (github_repos_request token username) = Inl apiError"
  have h: "github_stats_by_username token clock get_user get_repos username =
     ([github_user_request token username, github_repos_request token username],
      success_envelope (github_mock_stats clock username))"
    using u r by (simp add: github_stats_by_username_def)
  have s: "snd (github_stats_by_username token clock get_user get_repos username) =
     snd (github_stats_by_username token clock (\<lambda>q. Inl apiError) get_repos username)"
    using u r by (simp add: github_stats_by_username_def)
  show ?thesis
    apply (intro conjI impI)
    apply (rule h)
    apply (rule s)
    apply (simp_all add: success_envelope_fields mock_record_fields mock_topRepos_field
        length_mock_topRepos mock_topRepos_at mock_entry_fields)
    done
qed


text \<open>
  The profile of \<open>octocat\<close> arrives with \<open>100\<close> followers, the repository list times
  out: the response carries the synthesized \<open>377\<close>, seven entries of \<open>113\<close> stars
  each, and their total \<open>791\<close>.
\<close>

theorem C4_partial_failure_witness:
  "snd (github_stats_by_username None (\<lambda>i. 0) (\<lambda>q. Inr (Shaped example_user))
          (\<lambda>q. Inl Timeout) ''octocat'') =
     success_envelope (github_mock_stats (\<lambda>i. 0) ''octocat'') \<and>
   status (success_envelope (github_mock_stats (\<lambda>i. 0) ''octocat'')) = 200 \<and>
   map of_char (take 1 ''octocat'') = [111::int] \<and>
   followers example_user = JNum 100 \<and>
   get_field ''followers'' (github_mock_stats (\<lambda>i. 0) ''octocat'') = Some (JNum 377) \<and>
   get_field ''username'' (github_mock_stats (\<lambda>i. 0) ''octocat'') = Some (JStr ''octocat'') \<and>
   get_field ''name'' (github_mock_stats (\<lambda>i. 0) ''octocat'') = Some (JStr ''Octocat'') \<and>
   get_field ''totalStars'' (github_mock_stats (\<lambda>i. 0) ''octocat'') = Some (JNum 791) \<and>
   get_field ''lastUpdated'' (github_mock_stats (\<lambda>i. 0) ''octocat'') = Some (JIso 0) \<and>
   length (map mock_repo_entry (mock_topRepos (\<lambda>i. 0) ''octocat'')) = 7 \<and>
   get_field ''name'' (map mock_repo_entry (mock_topRepos (\<lambda>i. 0) ''octocat'') ! 0) =
     Some (JStr ''awesome-project-75'') \<and>
   get_field ''stars'' (map mock_repo_entry (mock_topRepos (\<lambda>i. 0) ''octocat'') ! 0) =
     Some (JNum 113)"
proof -
  have u: "followers example_user = JNum 100"
    by (simp add: example_user_def)
  have a: "\<forall>c \<in> set (take 1 ''octocat''). of_char c < (128::int)"
    by simp
  from a u octocat_first_char
    C4_partial_failure [of "\<lambda>q. Inr (Shaped example_user)" None "''octocat''"
      "Shaped example_user" "\<lambda>q. Inl Timeout" Timeout "\<lambda>i. 0" 0]
  show ?thesis
    by (simp add: seed_octocat octocat_repo_selectors octocat_followers string_of_75
        octocat_names octocat_slice_length octocat_totalStars upper_o
        octocat_topRepos_length)
qed

section \<open>The shape of the synthesized record\<close>

text \<open>
  The LeetCode username endpoint with an upstream that cannot be reached, for the user
  name \<open>octocat\<close>: the response carries no record, so what it has in the place of a
  synthesized record has no field, where the normalized LeetCode record has sixteen.
\<close>

theorem C5_leetcode_counterexample:
  "get_field ''data''
     (body (snd (leetcode_stats_by_username (\<lambda>q. Inl NetworkError) ''octocat''))) = None \<and>
   field_names
     (opt_prop (body (snd (leetcode_stats_by_username (\<lambda>q. Inl NetworkError) ''octocat'')))
        ''data'') = [] \<and>
   field_names (leetcodeStats example_leetcode) =
     [''username'', ''ranking'', ''reputation'', ''realName'', ''totalSolved'', ''easySolved'',
      ''mediumSolved'', ''hardSolved'', ''contestAttended'', ''contestRating'',
      ''contestGlobalRanking'', ''contestBadge'', ''badges'', ''beatsPercentage'',
      ''recentSubmissions'', ''topTags'']"
  by (simp add: leetcode_stats_by_username_def leetcode_fetch_def Let_def error_envelope_def
      leetcodeStats_def)

text \<open>
  Claim C5, as the code has it. The field names of a record are the own properties of
  the object the handler builds. On GitHub, for every user name, the synthesized record
  has the field names of the normalized record (the same sixteen, in the same order),
  and so have the entries of \<open>topRepos\<close> and of \<open>languages\<close>. LeetCode has no
  synthesized record: its endpoint answers a failed upstream call without data.
\<close>

theorem C5_field_parity:
  "field_names (github_mock_stats clock username) =
     field_names (github_real_stats clock' userData repos) \<and>
   set (field_names (github_mock_stats clock username)) =
     set (field_names (github_real_stats clock' userData repos)) \<and>
   field_names (mock_repo_entry m) = field_names (repo_entry r) \<and>
   field_names (mock_language_entry l) = field_names (language_entry l') \<and>
   (upstream_failed (post (leetcode_request username)) \<longrightarrow>
      get_field ''data'' (body (snd (leetcode_stats_by_username post username))) = None)"
proof -
  have "upstream_failed (post (leetcode_request username)) \<longrightarrow>
      get_field ''data'' (body (snd (leetcode_stats_by_username post username))) = None"
    using leetcode_failure_reported [of post username]
    by (simp add: leetcode_stats_by_username_def error_envelope_fields)
  then show ?thesis
    by (simp add: github_mock_stats_def github_real_stats_def Let_def mock_repo_entry_def
        repo_entry_def mock_language_entry_def language_entry_def split_def)
qed

theorem C5_field_parity_witness:
  "field_names (github_mock_stats (\<lambda>i. 0) ''octocat'') =
     [''username'', ''name'', ''avatarUrl'', ''bio'', ''company'', ''blog'', ''location'',
      ''followers'', ''following'', ''publicRepos'', ''publicGists'', ''totalStars'',
      ''languages'', ''topRepos'', ''dataSource'', ''lastUpdated''] \<and>
   field_names (github_real_stats (\<lambda>i. 0) example_user [example_repo ''a'' 5]) =
     field_names (github_mock_stats (\<lambda>i. 0) ''octocat'') \<and>
   upstream_failed (Inl Timeout :: failure + leetcode_data payload_body) \<and>
   get_field ''data'' (body (snd (leetcode_stats_by_username (\<lambda>q. Inl Timeout) ''octocat''))) =
     None"
proof -
  have "field_names (github_real_stats (\<lambda>i. 0) example_user [example_repo ''a'' 5]) =
     [''username'', ''name'', ''avatarUrl'', ''bio'', ''company'', ''blog'', ''location'',
      ''followers'', ''following'', ''publicRepos'', ''publicGists'', ''totalStars'',
      ''languages'', ''topRepos'', ''dataSource'', ''lastUpdated'']"
    by (simp add: github_real_stats_def)
  moreover have "upstream_failed (Inl Timeout :: failure + leetcode_data payload_body)"
    by (simp add: upstream_failed_def)
  ultimately show ?thesis
    using C5_field_parity [of "\<lambda>i. 0" "''octocat''" "\<lambda>i. 0" example_user
      "[example_repo ''a'' 5]" _ _ _ _ "\<lambda>q. Inl Timeout"]
    by simp
qed

section \<open>The timeouts of the requests\<close>

text \<open>
  The LeetCode username endpoint, for the user name \<open>octocat\<close>: it issues one request,
  and that request has no timeout.
\<close>

theorem C9_leetcode_counterexample:
  "map timeout (fst (leetcode_stats_by_username (\<lambda>q. Inl Timeout) ''octocat'')) = [None]"
  by (simp add: leetcode_stats_by_username_def leetcode_fetch_def Let_def leetcode_request_def)

text \<open>
  Claim C9, as the code has it. Every request the GitHub username endpoint issues to the
  GitHub API (there is at least one) is constructed with a timeout of \<open>5000\<close>
  milliseconds, and when either call times out the endpoint answers with the success
  envelope around the synthesized record. The request of the LeetCode endpoints and the
  loop-back request of the profile-bound GitHub endpoint are constructed without a
  timeout.
\<close>

theorem C9_request_timeouts:
  "(\<forall>q \<in> set (fst (github_stats_by_username token clock get_user get_repos username)).
      timeout q = Some 5000) \<and>
   fst (github_stats_by_username token clock get_user get_repos username) \<noteq> [] \<and>
   (get_user (github_user_request token username) = Inl Timeout \<or>
    get_repos (github_repos_request token username) = Inl Timeout \<longrightarrow>
      snd (github_stats_by_username token clock get_user get_repos username) =
        success_envelope (github_mock_stats clock username)) \<and>
   (\<forall>q \<in> set (fst (leetcode_stats_by_username post username)). timeout q = None) \<and>
   (\<forall>q \<in> set (fst (leetcode_stats_by_profile findOne post user_id)). timeout q = None) \<and>
   (\<forall>q \<in> set (fst (github_stats_by_profile findOne forward protocol host user_id)).
      timeout q = None)"
proof -
  have "\<forall>q \<in> set (fst (github_stats_by_username token clock get_user get_repos username)).
      timeout q = Some 5000"
    using github_requests_issued [of token clock get_user get_repos username]
    by (auto simp: github_user_request_def github_repos_request_def)
  moreover have "get_user (github_user_request token username) = Inl Timeout \<or>
    get_repos (github_repos_request token username) = Inl Timeout \<longrightarrow>
      snd (github_stats_by_username token clock get_user get_repos username) =
        success_envelope (github_mock_stats clock username)"
    using github_failure_synthesizes [of get_user token username get_repos clock]
    by (auto simp: upstream_failed_def)
  moreover have "\<forall>q \<in> set (fst (leetcode_stats_by_username post username)). timeout q = None"
    by (simp add: leetcode_stats_by_username_def leetcode_requests_issued leetcode_request_def)
  ultimately show ?thesis
    using github_requests_issued [of token clock get_user get_repos username]
      leetcode_profile_requests_issued [of findOne post user_id]
      github_profile_requests_issued [of findOne forward protocol host user_id]
    by blast
qed

text \<open>
  \<open>octocat\<close> with a token, the profile arriving and the repository list timing out;
  \<open>alice\<close>, whose profile binds LeetCode; \<open>bob\<close>, whose profile binds GitHub by a URL.
\<close>

theorem C9_request_timeouts_witness:
  "fst (github_stats_by_username (Some ''t0k'') (\<lambda>i. 0) (\<lambda>q. Inr (Shaped example_user))
          (\<lambda>q. Inl Timeout) ''octocat'') =
     [github_user_request (Some ''t0k'') ''octocat'',
      github_repos_request (Some ''t0k'') ''octocat''] \<and>
   map timeout (fst (github_stats_by_username (Some ''t0k'') (\<lambda>i. 0)
          (\<lambda>q. Inr (Shaped example_user)) (\<lambda>q. Inl Timeout) ''octocat'')) =
     [Some 5000, Some 5000] \<and>
   snd (github_stats_by_username (Some ''t0k'') (\<lambda>i. 0) (\<lambda>q. Inr (Shaped example_user))
          (\<lambda>q. Inl Timeout) ''octocat'') =
     success_envelope (github_mock_stats (\<lambda>i. 0) ''octocat'') \<and>
   map timeout (fst (leetcode_stats_by_profile example_store (\<lambda>q. Inl Timeout) ''alice'')) =
     [None] \<and>
   map url (fst (github_stats_by_profile example_store (\<lambda>q. Inl Timeout) ''http''
          ''localhost:5000'' ''bob'')) =
     [''http://localhost:5000/api/github/stats/bob''] \<and>
   map timeout (fst (github_stats_by_profile example_store (\<lambda>q. Inl Timeout) ''http''
          ''localhost:5000'' ''bob'')) = [None]"
proof -
  have g: "fst (github_stats_by_username (Some ''t0k'') (\<lambda>i. 0) (\<lambda>q. Inr (Shaped example_user))
          (\<lambda>q. Inl Timeout) ''octocat'') =
     [github_user_request (Some ''t0k'') ''octocat'',
      github_repos_request (Some ''t0k'') ''octocat'']"
    by (simp add: github_stats_by_username_def)
  have a: "fst (leetcode_stats_by_profile example_store (\<lambda>q. Inl Timeout) ''alice'') =
     [leetcode_request ''alice_lc'']"
    by (simp add: leetcode_stats_by_profile_def example_store_def leetcode_requests_issued)
  have u: "github_binding_username ''https://github.com/bob/'' = ''bob''"
    by (simp add: github_binding_username_def js_includes_def split_second_def
        strip_trailing_slash_def)
  have b: "fst (github_stats_by_profile example_store (\<lambda>q. Inl Timeout) ''http''
          ''localhost:5000'' ''bob'') = [github_forward_request ''http'' ''localhost:5000'' ''bob'']"
    by (simp add: github_stats_by_profile_def example_store_def u)
  from C9_request_timeouts [of "Some ''t0k''" "\<lambda>i. 0" "\<lambda>q. Inr (Shaped example_user)"
      "\<lambda>q. Inl Timeout" "''octocat''" "\<lambda>q. Inl Timeout" example_store
      "''alice''" "\<lambda>q. Inl Timeout" "''http''" "''localhost:5000''"]
  have "(\<forall>q \<in> set (fst (github_stats_by_username (Some ''t0k'') (\<lambda>i. 0)
          (\<lambda>q. Inr (Shaped example_user)) (\<lambda>q. Inl Timeout) ''octocat'')).
          timeout q = Some 5000) \<and>
    snd (github_stats_by_username (Some ''t0k'') (\<lambda>i. 0) (\<lambda>q. Inr (Shaped example_user))
          (\<lambda>q. Inl Timeout) ''octocat'') =
     success_envelope (github_mock_stats (\<lambda>i. 0) ''octocat'')"
    by simp
  then show ?thesis
    by (simp add: g a b github_forward_request_def leetcode_request_def)
qed

section \<open>The selector is stateless\<close>

text \<open>
  Claim C10. The selector of the synthesis is a function of the seed and its two bounds
  and keeps no state, so every call with the same bounds gives the same value for a user
  name. Hence, for every user name, every entry of the synthesized \<open>topRepos\<close> carries
  the same \<open>stars\<close> (the selector at \<open>0, 150\<close>), the same \<open>forks\<close> (at \<open>0, 50\<close>), and
  a name that is a word of the vocabulary followed by \<open>-\<close> and the same number (at
  \<open>1, 99\<close>).
\<close>

theorem C10_topRepos_identical:
  "get_field ''topRepos'' (github_mock_stats clock username) =
     Some (JArr (map mock_repo_entry (mock_topRepos clock username))) \<and>
   (\<forall>r \<in> set (mock_topRepos clock username).
      get_field ''stars'' (mock_repo_entry r) =
        Some (JNum (of_int (random_sel (seed username) 0 150))) \<and>
      get_field ''forks'' (mock_repo_entry r) =
        Some (JNum (of_int (random_sel (seed username) 0 50))) \<and>
      (\<exists>name \<in> set repoNames.
         get_field ''name'' (mock_repo_entry r) =
           Some (JStr (name @ ''-'' @ string_of_int (random_sel (seed username) 1 99)))))"
proof (rule conjI)
  show "get_field ''topRepos'' (github_mock_stats clock username) =
     Some (JArr (map mock_repo_entry (mock_topRepos clock username)))"
    by (rule mock_topRepos_field)
next
  show "\<forall>r \<in> set (mock_topRepos clock username).
      get_field ''stars'' (mock_repo_entry r) =
        Some (JNum (of_int (random_sel (seed username) 0 150))) \<and>
      get_field ''forks'' (mock_repo_entry r) =
        Some (JNum (of_int (random_sel (seed username) 0 50))) \<and>
      (\<exists>name \<in> set repoNames.
         get_field ''name'' (mock_repo_entry r) =
           Some (JStr (name @ ''-'' @ string_of_int (random_sel (seed username) 1 99))))"
  proof
    fix r
    assume "r \<in> set (mock_topRepos clock username)"
    then show "get_field ''stars'' (mock_repo_entry r) =
        Some (JNum (of_int (random_sel (seed username) 0 150))) \<and>
      get_field ''forks'' (mock_repo_entry r) =
        Some (JNum (of_int (random_sel (seed username) 0 50))) \<and>
      (\<exists>name \<in> set repoNames.
         get_field ''name'' (mock_repo_entry r) =
           Some (JStr (name @ ''-'' @ string_of_int (random_sel (seed username) 1 99))))"
      by (rule mock_topRepos_entries [of r clock username])
  qed
qed

text \<open>
  \<open>octocat\<close> has seven entries; the first and the last have \<open>113\<close> stars, \<open>38\<close> forks
  and the suffix \<open>75\<close>.
\<close>

theorem C10_topRepos_identical_witness:
  "mock_topRepos (\<lambda>i. 0) ''octocat'' ! 0 \<in> set (mock_topRepos (\<lambda>i. 0) ''octocat'') \<and>
   mock_topRepos (\<lambda>i. 0) ''octocat'' ! 6 \<in> set (mock_topRepos (\<lambda>i. 0) ''octocat'') \<and>
   get_field ''stars'' (mock_repo_entry (mock_topRepos (\<lambda>i. 0) ''octocat'' ! 0)) = Some (JNum 113) \<and>
   get_field ''stars'' (mock_repo_entry (mock_topRepos (\<lambda>i. 0) ''octocat'' ! 6)) = Some (JNum 113) \<and>
   get_field ''forks'' (mock_repo_entry (mock_topRepos (\<lambda>i. 0) ''octocat'' ! 0)) = Some (JNum 38) \<and>
   get_field ''forks'' (mock_repo_entry (mock_topRepos (\<lambda>i. 0) ''octocat'' ! 6)) = Some (JNum 38) \<and>
   get_field ''name'' (mock_repo_entry (mock_topRepos (\<lambda>i. 0) ''octocat'' ! 0)) =
     Some (JStr ''awesome-project-75'') \<and>
   get_field ''name'' (mock_repo_entry (mock_topRepos (\<lambda>i. 0) ''octocat'' ! 6)) =
     Some (JStr ''portfolio-website-75'')"
proof -
  let ?rs = "mock_topRepos (\<lambda>i. 0) ''octocat''"
  have m0: "?rs ! 0 \<in> set ?rs" and m6: "?rs ! 6 \<in> set ?rs"
    by (simp_all add: octocat_topRepos_length)
  have n0: "get_field ''name'' (mock_repo_entry (?rs ! 0)) = Some (JStr ''awesome-project-75'')"
    by (simp add: mock_topRepos_nth octocat_topRepos_length mock_repo_of_fields
        seed_octocat octocat_repo_selectors string_of_75 octocat_names)
  have n6: "get_field ''name'' (mock_repo_entry (?rs ! 6)) = Some (JStr ''portfolio-website-75'')"
    by (simp add: mock_topRepos_nth octocat_topRepos_length mock_repo_of_fields
        seed_octocat octocat_repo_selectors string_of_75 octocat_names)
  from C10_topRepos_identical [of "\<lambda>i. 0" "''octocat''"] m0 m6
  have "get_field ''stars'' (mock_repo_entry (?rs ! 0)) = Some (JNum 113) \<and>
    get_field ''stars'' (mock_repo_entry (?rs ! 6)) = Some (JNum 113) \<and>
    get_field ''forks'' (mock_repo_entry (?rs ! 0)) = Some (JNum 38) \<and>
    get_field ''forks'' (mock_repo_entry (?rs ! 6)) = Some (JNum 38)"
    by (simp add: seed_octocat octocat_repo_selectors)
  with m0 m6 n0 n6 show ?thesis
    by simp
qed

end
